theory Spec2Isabelle
  imports Complex_Main
begin

section \<open>Token list and symbol resolution (class Solana)\<close>

text \<open>
  A shallow embedding of the Solana chain class and the Jupiter connector of the gateway.
  JavaScript strings are modelled as \<open>string\<close>; \<open>toUpperCase\<close> maps the letters a..z
  (codes 97..122) to A..Z by clearing the bit of value 32, and leaves every other
  character alone, which is what JavaScript does on ASCII strings. Results that depend
  on \<open>toUpperCase\<close> are stated for ASCII strings (\<open>ascii\<close>).
\<close>

fun upper_char :: "char \<Rightarrow> char" where
  "upper_char (Char b0 b1 b2 b3 b4 b5 b6 b7) =
     (if 97 \<le> (of_char (Char b0 b1 b2 b3 b4 b5 b6 b7) :: nat)
         \<and> (of_char (Char b0 b1 b2 b3 b4 b5 b6 b7) :: nat) \<le> 122
      then Char b0 b1 b2 b3 b4 False b6 b7
      else Char b0 b1 b2 b3 b4 b5 b6 b7)"

definition toUpperCase :: "string \<Rightarrow> string" where
  "toUpperCase s = map upper_char s"

definition ascii :: "string \<Rightarrow> bool" where
  "ascii s = list_all (\<lambda>c. (of_char c :: nat) < 128) s"

text \<open>\<open>TokenInfo\<close> of the token registry: the fields the gateway reads.\<close>

record TokenInfo =
  address :: string
  symbol :: string
  decimals :: nat

text \<open>
  The part of a \<open>Solana\<close> instance that symbol resolution reads and writes:
  \<open>tokenList\<close>, the object \<open>_tokenMap\<close> (keys are symbols), the object
  \<open>_tokenAddressMap\<close> (keys are mint addresses) and the flag \<open>_ready\<close>.
  Both objects are created by \<open>{}\<close>: the maps hold their own properties, and a read of
  a key that is no own property finds the members inherited from \<open>Object.prototype\<close>.
\<close>

record Solana =
  tokenList :: "TokenInfo list"
  tokenMap :: "string \<rightharpoonup> TokenInfo"
  tokenAddressMap :: "string \<rightharpoonup> TokenInfo"
  ready :: bool

text \<open>The constructor leaves the maps empty and the instance not ready.\<close>

definition new_Solana :: Solana where
  "new_Solana = \<lparr> tokenList = [], tokenMap = Map.empty, tokenAddressMap = Map.empty,
                   ready = False \<rparr>"

text \<open>
  \<open>loadTokens\<close>: \<open>tokenList\<close> becomes the resolved list, and \<open>forEach\<close> stores every token
  under its symbol (original case) and under its address, later entries overwriting
  earlier ones. An assignment to the key \<open>__proto__\<close> would replace the prototype of the
  object instead of creating a property; a token list with that symbol or address is
  outside the model, and the results on the map exclude it.
\<close>

definition store_token :: "Solana \<Rightarrow> TokenInfo \<Rightarrow> Solana" where
  "store_token s t = s\<lparr> tokenMap := (tokenMap s)(symbol t \<mapsto> t),
                         tokenAddressMap := (tokenAddressMap s)(address t \<mapsto> t) \<rparr>"

definition loadTokens :: "TokenInfo list \<Rightarrow> Solana \<Rightarrow> Solana" where
  "loadTokens resolved s = foldl store_token (s\<lparr> tokenList := resolved \<rparr>) resolved"

text \<open>
  \<open>init\<close>: load the tokens unless the instance is ready already, then set \<open>_ready\<close>. The
  flag \<open>initializing\<close>, which only matters to a second call made while the first one is
  still loading, is left out.
\<close>

definition init :: "TokenInfo list \<Rightarrow> Solana \<Rightarrow> Solana" where
  "init resolved s = (if \<not> ready s then (loadTokens resolved s)\<lparr> ready := True \<rparr> else s)"

datatype lookup_error = NotInitialized

text \<open>
  The names of the members of \<open>Object.prototype\<close>, which every object created by \<open>{}\<close>
  inherits; each of them is a function, except \<open>__proto__\<close>, which reads as the prototype
  object. None of them is \<open>null\<close> or \<open>undefined\<close>.
\<close>

definition Object_prototype_keys :: "string list" where
  "Object_prototype_keys =
     [''constructor'', ''__defineGetter__'', ''__defineSetter__'', ''hasOwnProperty'',
      ''__lookupGetter__'', ''__lookupSetter__'', ''isPrototypeOf'', ''propertyIsEnumerable'',
      ''toString'', ''valueOf'', ''__proto__'', ''toLocaleString'']"

text \<open>
  What a read of \<open>_tokenMap[symbol]\<close> can give besides \<open>undefined\<close>: a stored token, or
  a member inherited from \<open>Object.prototype\<close>, which has none of the fields of a token
  (\<open>symbol\<close>, \<open>address\<close> and \<open>decimals\<close> read as \<open>undefined\<close> on it).
\<close>

datatype looked_up = Token TokenInfo | Inherited

text \<open>
  \<open>getTokenForSymbol\<close>: throws before initialisation, otherwise reads \<open>_tokenMap[symbol]\<close>
  and turns \<open>undefined\<close> into \<open>null\<close> (here \<open>None\<close>) with \<open>??\<close>, which keeps every other
  value.
\<close>

definition getTokenForSymbol :: "Solana \<Rightarrow> string \<Rightarrow> lookup_error + looked_up option" where
  "getTokenForSymbol s smb =
     (if \<not> ready s then Inl NotInitialized
      else Inr (case tokenMap s smb of
                  Some token \<Rightarrow> Some (Token token)
                | None \<Rightarrow> if smb \<in> set Object_prototype_keys then Some Inherited else None))"

text \<open>
  \<open>getTokenBySymbol\<close>: the loop runs \<open>i\<close> from \<open>length - 1\<close> down to \<open>0\<close>; the argument
  \<open>n\<close> of the loop is \<open>i + 1\<close>.
\<close>

fun getTokenBySymbol_loop :: "TokenInfo list \<Rightarrow> nat \<Rightarrow> string \<Rightarrow> TokenInfo option" where
  "getTokenBySymbol_loop tokens 0 tokenSymbol = None"
| "getTokenBySymbol_loop tokens (Suc i) tokenSymbol =
     (if toUpperCase (symbol (tokens ! i)) = toUpperCase tokenSymbol then Some (tokens ! i)
      else getTokenBySymbol_loop tokens i tokenSymbol)"

definition getTokenBySymbol :: "Solana \<Rightarrow> string \<Rightarrow> TokenInfo option" where
  "getTokenBySymbol s tokenSymbol =
     getTokenBySymbol_loop (tokenList s) (length (tokenList s)) tokenSymbol"

text \<open>What "the last entry that satisfies \<open>P\<close>" means, for stating the results.\<close>

definition last_match :: "('a \<Rightarrow> bool) \<Rightarrow> 'a list \<Rightarrow> 'a option" where
  "last_match P xs = (if filter P xs = [] then None else Some (last (filter P xs)))"

text \<open>
  The first step of \<open>getTradeInfo\<close>, shared by \<open>price\<close> and \<open>trade\<close>: both symbols are
  resolved with \<open>getTokenForSymbol\<close>; \<open>null\<close> is an error, and every other value passes
  the tests \<open>!baseToken\<close> and \<open>!quoteToken\<close>.
\<close>

datatype resolve_error =
    Uninitialized
  | BaseTokenNotFound string
  | QuoteTokenNotFound string

definition resolve_tokens ::
    "Solana \<Rightarrow> string \<Rightarrow> string \<Rightarrow> resolve_error + (looked_up \<times> looked_up)" where
  "resolve_tokens solanaish baseAsset quoteAsset =
     (case getTokenForSymbol solanaish baseAsset of
        Inl _ \<Rightarrow> Inl Uninitialized
      | Inr baseToken \<Rightarrow>
          (case getTokenForSymbol solanaish quoteAsset of
             Inl _ \<Rightarrow> Inl Uninitialized
           | Inr quoteToken \<Rightarrow>
               (case baseToken of
                  None \<Rightarrow> Inl (BaseTokenNotFound baseAsset)
                | Some b \<Rightarrow>
                    (case quoteToken of
                       None \<Rightarrow> Inl (QuoteTokenNotFound quoteAsset)
                     | Some q \<Rightarrow> Inr (b, q)))))"

section \<open>Priority fee estimation (Solana.estimatePriorityFees)\<close>

text \<open>
  A JavaScript \<open>number\<close> is modelled by the real number it denotes, computed exactly: the
  rounding of binary floating point is not modelled. \<open>NaN\<close> is kept apart, because an
  out-of-range array read gives \<open>undefined\<close> and \<open>Math.max(undefined, x)\<close> is \<open>NaN\<close>.
\<close>

datatype jsnum = Num real | NaN

fun Math_max :: "jsnum \<Rightarrow> jsnum \<Rightarrow> jsnum" where
  "Math_max (Num a) (Num b) = Num (max a b)"
| "Math_max _ _ = NaN"

text \<open>
  The configuration fields of a \<open>Solana\<close> instance that the fee paths read. Their values
  come from the configuration manager, which is outside the sources, so they are
  parameters.
\<close>

record Settings =
  defaultComputeUnits :: real
  priorityFeePercentile :: real
  priorityFeeMultiplier :: real
  maxPriorityFee :: real
  minPriorityFee :: real
  retryCount :: nat

text \<open>The static single-slot cache \<open>lastPriorityFeeEstimate\<close>: \<open>null\<close> or a timestamp and a fee.\<close>

type_synonym fee_cache = "(int \<times> jsnum) option"

definition PRIORITY_FEE_CACHE_MS :: int where
  "PRIORITY_FEE_CACHE_MS = 10000"

text \<open>
  What the \<open>getRecentPrioritizationFees\<close> request gave: \<open>fetch\<close> threw, the response was
  not ok (with its status), or it carried the list of \<open>prioritizationFee\<close> samples.
\<close>

datatype fee_response = FetchThrew | NotOk nat | Samples "real list"

datatype fee_error = FailedToFetchPriorityFees

definition minimumFee :: "Settings \<Rightarrow> real" where
  "minimumFee cfg = minPriorityFee cfg / defaultComputeUnits cfg * 1000000"

text \<open>\<open>fees[i]\<close> for an integer \<open>i\<close>: \<open>undefined\<close> (which \<open>Math.max\<close> turns into \<open>NaN\<close>) out of range.\<close>

definition fee_at :: "real list \<Rightarrow> int \<Rightarrow> jsnum" where
  "fee_at fees i = (if 0 \<le> i \<and> i < int (length fees) then Num (fees ! nat i) else NaN)"

text \<open>The cache check: the cached fee while it is younger than the cache window.\<close>

definition cached_fee :: "fee_cache \<Rightarrow> int \<Rightarrow> jsnum option" where
  "cached_fee cache now =
     (case cache of
        None \<Rightarrow> None
      | Some (timestamp, fee) \<Rightarrow>
          if now - timestamp < PRIORITY_FEE_CACHE_MS then Some fee else None)"

text \<open>
  \<open>estimatePriorityFees\<close>, given the cache, \<open>Date.now()\<close> at the cache check (\<open>now\<close>) and at
  the cache write (\<open>later\<close>) and the response; it returns the result and the new cache.
\<close>

definition estimatePriorityFees ::
    "Settings \<Rightarrow> fee_cache \<Rightarrow> int \<Rightarrow> int \<Rightarrow> fee_response \<Rightarrow> (fee_error + jsnum) \<times> fee_cache" where
  "estimatePriorityFees cfg cache now later response =
     (case cached_fee cache now of
        Some cached \<Rightarrow> (Inr cached, cache)
      | None \<Rightarrow>
          (case response of
             FetchThrew \<Rightarrow> (Inl FailedToFetchPriorityFees, cache)
           | NotOk status \<Rightarrow> (Inl FailedToFetchPriorityFees, cache)
           | Samples result \<Rightarrow>
               (let fees = filter (\<lambda>fee. fee > 0) result;
                    minimumFee = minimumFee cfg
                in if length fees = 0 then (Inr (Num minimumFee), cache)
                   else
                     (let fees = sort fees;
                          percentileIndex =
                            \<lceil>real (length fees) * priorityFeePercentile cfg\<rceil>;
                          percentileFee = fee_at fees (percentileIndex - 1);
                          percentileFee = Math_max percentileFee (Num minimumFee)
                      in (Inr percentileFee, Some (later, percentileFee))))))"

text \<open>
  A configuration is well formed when the percentile is a fraction in \<open>(0, 1]\<close> and the
  compute-unit budget and the minimum priority fee are positive.
\<close>

definition well_formed :: "Settings \<Rightarrow> bool" where
  "well_formed cfg \<longleftrightarrow>
     0 < priorityFeePercentile cfg \<and> priorityFeePercentile cfg \<le> 1 \<and>
     0 < defaultComputeUnits cfg \<and> 0 < minPriorityFee cfg"

section \<open>Wallet balances (Solana.getBalance)\<close>

text \<open>
  What the chain reports for a wallet: the native balance in lamports and the token
  accounts, each with its mint address and raw amount. The two RPC reads and the token
  list resolution are taken as having succeeded: an exception of theirs passes through
  \<open>getBalance\<close> to the caller and is not modelled.

  The conversion of a raw amount is \<open>Number(amount) / Math.pow(10, decimals)\<close>, computed
  in binary floating point. Its rounding is not modelled: the conversion is the
  parameter \<open>toUiAmount\<close>, the number the runtime gives for a raw amount and a number of
  decimals, at the value that \<open>new Decimal\<close> reads from it (the value of its decimal
  string). The native balance is converted in the same way, with 9 decimals.
\<close>

record TokenAccount =
  mint :: string
  rawAmount :: nat

record Wallet =
  lamports :: nat
  accounts :: "TokenAccount list"

text \<open>\<open>upperCaseSymbols.includes(x)\<close>, with \<open>symbols\<close> optional: \<open>None\<close> is \<open>undefined\<close>.\<close>

definition wanted :: "string list option \<Rightarrow> string \<Rightarrow> bool" where
  "wanted symbols x =
     (case symbols of None \<Rightarrow> True | Some ss \<Rightarrow> x \<in> set (map toUpperCase ss))"

text \<open>The \<open>reduce\<close> that builds \<open>tokenDefs\<close>, keyed by mint address.\<close>

definition tokenDefs :: "TokenInfo list \<Rightarrow> string list option \<Rightarrow> (string \<rightharpoonup> string \<times> nat)" where
  "tokenDefs resolved symbols =
     foldl (\<lambda>acc token.
              if wanted symbols (toUpperCase (symbol token))
              then acc(address token \<mapsto> (symbol token, decimals token)) else acc)
       Map.empty resolved"

text \<open>The loop over the token accounts; an account whose mint has no entry is skipped.\<close>

fun process_accounts ::
    "(nat \<Rightarrow> nat \<Rightarrow> real) \<Rightarrow> (string \<rightharpoonup> string \<times> nat) \<Rightarrow> TokenAccount list
       \<Rightarrow> (string \<rightharpoonup> real) \<Rightarrow> (string \<rightharpoonup> real)" where
  "process_accounts toUiAmount defs [] balances = balances"
| "process_accounts toUiAmount defs (v # vs) balances =
     (case defs (mint v) of
        None \<Rightarrow> process_accounts toUiAmount defs vs balances
      | Some (sy, dec) \<Rightarrow>
          process_accounts toUiAmount defs vs (balances(sy \<mapsto> toUiAmount (rawAmount v) dec)))"

definition getBalance ::
    "(nat \<Rightarrow> nat \<Rightarrow> real) \<Rightarrow> TokenInfo list \<Rightarrow> Wallet \<Rightarrow> string list option
       \<Rightarrow> (string \<rightharpoonup> real)" where
  "getBalance toUiAmount resolved wallet symbols =
     (let balances =
            (if wanted symbols ''SOL''
             then [''SOL'' \<mapsto> toUiAmount (lamports wallet) 9] else Map.empty)
      in process_accounts toUiAmount (tokenDefs resolved symbols) (accounts wallet) balances)"

section \<open>Trade orchestration (getTradeInfo, trade)\<close>

datatype Side = BUY | SELL

text \<open>
  A price or trade request. \<open>amount\<close> and \<open>limitPrice\<close> arrive as decimal strings; the
  model keeps the number the string denotes. \<open>limitPrice\<close> is optional: \<open>None\<close> is an
  absent field, \<open>Some v\<close> a non-empty decimal string, which is truthy in the guard
  \<open>req.limitPrice && ...\<close>.
\<close>

record TradeRequest =
  base :: string
  quote :: string
  amount :: real
  side :: Side
  limitPrice :: "real option"

text \<open>The quote of the aggregator: the two raw amounts, as the integers their strings denote.\<close>

record QuoteResponse =
  inAmount :: nat
  outAmount :: nat

record TradeInfo =
  baseToken :: TokenInfo
  quoteToken :: TokenInfo
  requestAmount :: real
  expectedPrice :: jsnum
  expectedAmount :: real

text \<open>
  Division of numbers: a zero divisor gives \<open>NaN\<close> or an infinity in JavaScript, both of
  which \<open>Decimal\<close> rejects; \<open>NaN\<close> stands for either.
\<close>

definition js_div :: "real \<Rightarrow> real \<Rightarrow> jsnum" where
  "js_div a b = (if b = 0 then NaN else Num (a / b))"

definition DECIMAL_MULTIPLIER :: real where
  "DECIMAL_MULTIPLIER = 10"

text \<open>
  What \<open>trade\<close> and \<open>price\<close> get from their collaborators: the wallet loaded from the key
  file (\<open>None\<close> when \<open>getWallet\<close> throws), the aggregator's answer to
  \<open>getQuote(input, output, amount)\<close> (\<open>None\<close> when it throws), whether \<open>estimateGas\<close>
  succeeded, the token list as \<open>getBalance\<close> resolves it, what \<open>executeSwap\<close> does
  with a quote (\<open>None\<close> when it throws, otherwise the signature), and the conversion of
  raw amounts that \<open>getBalance\<close> computes in the runtime's number arithmetic.
\<close>

record Collaborators =
  getWallet :: "Wallet option"
  getQuote :: "string \<Rightarrow> string \<Rightarrow> real \<Rightarrow> QuoteResponse option"
  estimateGas_ok :: bool
  getTokenList :: "TokenInfo list"
  executeSwap_result :: "QuoteResponse \<Rightarrow> string option"
  uiAmount :: "nat \<Rightarrow> nat \<Rightarrow> real"

datatype trade_error =
    LOAD_WALLET_FAILED
  | PRICE_FAILED
  | SWAP_PRICE_EXCEEDS_LIMIT_PRICE
  | SWAP_PRICE_LOWER_THAN_LIMIT_PRICE
  | INSUFFICIENT_BASE_TOKEN_BALANCE
  | INSUFFICIENT_QUOTE_TOKEN_BALANCE
  | DecimalError
  | SWAP_FAILED
  | InheritedMemberAsToken

text \<open>
  \<open>getTradeInfo\<close>. Every exception it raises (token not found, quote failure, gas
  estimation failure) reaches \<open>price\<close> and \<open>trade\<close> as an \<open>Error\<close>, which they wrap as
  \<open>PRICE_FAILED\<close>; the model returns that error directly.

  When a symbol resolved to an inherited member, the quote is requested for the
  \<open>symbol\<close> field of that member, which is \<open>undefined\<close>; \<open>Jupiter.getQuote\<close> looks it up
  with \<open>getTokenForSymbol\<close>, that is under the key \<open>undefined\<close>, and throws "invalid token
  symbols" unless the map has such a key. If it has, the code goes on with the inherited
  member in place of a token and with \<open>NaN\<close> for the amounts computed from its
  \<open>decimals\<close>; the model does not follow it there and marks the case with
  \<open>InheritedMemberAsToken\<close>, which is no error of the code.
\<close>

definition getTradeInfo ::
    "Solana \<Rightarrow> Collaborators \<Rightarrow> string \<Rightarrow> string \<Rightarrow> real \<Rightarrow> Side
       \<Rightarrow> trade_error + (TradeInfo \<times> QuoteResponse)" where
  "getTradeInfo solanaish co baseAsset quoteAsset amt tradeSide =
     (case resolve_tokens solanaish baseAsset quoteAsset of
        Inl _ \<Rightarrow> Inl PRICE_FAILED
      | Inr (Inherited, _) \<Rightarrow>
          if tokenMap solanaish ''undefined'' = None then Inl PRICE_FAILED
          else Inl InheritedMemberAsToken
      | Inr (_, Inherited) \<Rightarrow>
          if tokenMap solanaish ''undefined'' = None then Inl PRICE_FAILED
          else Inl InheritedMemberAsToken
      | Inr (Token bt, Token qt) \<Rightarrow>
          (let reqAmount = real_of_int \<lfloor>amt * DECIMAL_MULTIPLIER ^ decimals bt\<rfloor> in
           case (if tradeSide = BUY then getQuote co (symbol qt) (symbol bt) amt
                 else getQuote co (symbol bt) (symbol qt) amt) of
             None \<Rightarrow> Inl PRICE_FAILED
           | Some q \<Rightarrow>
               (let baseAmount =
                      (if tradeSide = BUY then real (outAmount q) / 10 ^ decimals bt
                       else real (inAmount q) / 10 ^ decimals bt);
                    quoteAmount =
                      (if tradeSide = BUY then real (inAmount q) / 10 ^ decimals qt
                       else real (outAmount q) / 10 ^ decimals qt)
                in if \<not> estimateGas_ok co then Inl PRICE_FAILED
                   else Inr (\<lparr> baseToken = bt, quoteToken = qt, requestAmount = reqAmount,
                               expectedPrice = js_div quoteAmount baseAmount,
                               expectedAmount = quoteAmount \<rparr>, q))))"

text \<open>
  \<open>new Decimal(x)\<close> for a number and for the result of a dictionary read: it throws on
  \<open>NaN\<close>, on an infinity, on \<open>undefined\<close> and on a value that is neither a number nor
  a string (such as a member inherited from \<open>Object.prototype\<close>, which a read of a key
  without an own property can give). A \<open>Decimal\<close> is the number it denotes.
\<close>

definition Decimal_of_number :: "jsnum \<Rightarrow> trade_error + real" where
  "Decimal_of_number x = (case x of Num v \<Rightarrow> Inr v | NaN \<Rightarrow> Inl DecimalError)"

definition Decimal_of_entry :: "real option \<Rightarrow> trade_error + real" where
  "Decimal_of_entry x = (case x of Some v \<Rightarrow> Inr v | None \<Rightarrow> Inl DecimalError)"

text \<open>
  The limit-price guard of \<open>trade\<close>: \<open>None\<close> when it lets the trade pass, otherwise the
  exception. \<open>req.limitPrice && ...\<close> does not evaluate its right side when the field is
  absent.
\<close>

definition limit_price_guard :: "TradeRequest \<Rightarrow> TradeInfo \<Rightarrow> trade_error option" where
  "limit_price_guard req info =
     (if side req = BUY then
        (case limitPrice req of
           None \<Rightarrow> None
         | Some lp \<Rightarrow>
             (case Decimal_of_number (expectedPrice info) of
                Inl e \<Rightarrow> Some e
              | Inr p \<Rightarrow> if p > lp then Some SWAP_PRICE_EXCEEDS_LIMIT_PRICE else None))
      else
        (case limitPrice req of
           None \<Rightarrow> None
         | Some lp \<Rightarrow>
             (case Decimal_of_number (expectedPrice info) of
                Inl e \<Rightarrow> Some e
              | Inr p \<Rightarrow> if p < lp then Some SWAP_PRICE_LOWER_THAN_LIMIT_PRICE else None)))"

text \<open>
  The balance guard of \<open>trade\<close>: it reads the balance of one symbol with \<open>getBalance\<close> and
  compares it, as a \<open>Decimal\<close>, with the requested amount (SELL) or the expected spend
  (BUY).
\<close>

definition balance_guard ::
    "Collaborators \<Rightarrow> Wallet \<Rightarrow> TradeRequest \<Rightarrow> TradeInfo \<Rightarrow> trade_error option" where
  "balance_guard co keypair req info =
     (if side req = SELL then
        (let balance = getBalance (uiAmount co) (getTokenList co) keypair
                         (Some [symbol (baseToken info)]) in
         case Decimal_of_entry (balance (symbol (baseToken info))) of
           Inl e \<Rightarrow> Some e
         | Inr b \<Rightarrow> if b < amount req then Some INSUFFICIENT_BASE_TOKEN_BALANCE else None)
      else
        (let balance = getBalance (uiAmount co) (getTokenList co) keypair
                         (Some [symbol (quoteToken info)]) in
         case Decimal_of_entry (balance (symbol (quoteToken info))) of
           Inl e \<Rightarrow> Some e
         | Inr b \<Rightarrow>
             if b < expectedAmount info then Some INSUFFICIENT_QUOTE_TOKEN_BALANCE else None))"

text \<open>
  The calls \<open>trade\<close> makes that reach the network after the quote: the balance read and
  the swap execution (the only place a transaction is submitted).
\<close>

datatype effect = GetBalance "string list" | ExecuteSwap

text \<open>\<open>trade\<close>: the effects it performed, in order, and the exception or the transaction hash.\<close>

definition trade ::
    "Solana \<Rightarrow> Collaborators \<Rightarrow> TradeRequest \<Rightarrow> effect list \<times> (trade_error + string)" where
  "trade solanaish co req =
     (case getWallet co of
        None \<Rightarrow> ([], Inl LOAD_WALLET_FAILED)
      | Some keypair \<Rightarrow>
          (case getTradeInfo solanaish co (base req) (quote req) (amount req) (side req) of
             Inl e \<Rightarrow> ([], Inl e)
           | Inr (info, q) \<Rightarrow>
               (case limit_price_guard req info of
                  Some e \<Rightarrow> ([], Inl e)
                | None \<Rightarrow>
                    (let checked =
                           (if side req = SELL then symbol (baseToken info)
                            else symbol (quoteToken info))
                     in case balance_guard co keypair req info of
                          Some e \<Rightarrow> ([GetBalance [checked]], Inl e)
                        | None \<Rightarrow>
                            (case executeSwap_result co q of
                               None \<Rightarrow> ([GetBalance [checked], ExecuteSwap], Inl SWAP_FAILED)
                             | Some txHash \<Rightarrow>
                                 ([GetBalance [checked], ExecuteSwap], Inr txHash))))))"

section \<open>Price response (price)\<close>

text \<open>
  Two library functions format the amounts of the response. They are modelled on
  non-fractional and decimal values as their specifications define them:
  \<open>Number.prototype.toString\<close> writes an integer below \<open>10\<^sup>2\<^sup>1\<close> as its decimal digits and
  a larger one in exponent notation, with the digits that remain when the trailing zeros
  are dropped; \<open>Decimal.prototype.toFixed\<close> rounds half up to the given number of decimal
  places and writes all of them.
\<close>

function digits_of :: "nat \<Rightarrow> string" where
  "digits_of n =
     (if n < 10 then [''0123456789'' ! n]
      else digits_of (n div 10) @ [''0123456789'' ! (n mod 10)])"
  by pat_completeness auto
termination
  by (relation "measure (\<lambda>n. n)") auto

declare digits_of.simps [simp del]

function digit_count :: "nat \<Rightarrow> nat" where
  "digit_count n = (if n < 10 then 1 else 1 + digit_count (n div 10))"
  by pat_completeness auto
termination
  by (relation "measure (\<lambda>n. n)") auto

declare digit_count.simps [simp del]

function zeros :: "nat \<Rightarrow> string" where
  "zeros n = (if n = 0 then [] else CHR ''0'' # zeros (n - 1))"
  by pat_completeness auto
termination
  by (relation "measure (\<lambda>n. n)") auto

declare zeros.simps [simp del]

definition strip_trailing_zeros :: "string \<Rightarrow> string" where
  "strip_trailing_zeros ds = rev (dropWhile (\<lambda>c. c = CHR ''0'') (rev ds))"

text \<open>\<open>x.toString()\<close> for a number \<open>x\<close> without a fractional part.\<close>

definition Number_toString :: "real \<Rightarrow> string" where
  "Number_toString x =
     (let v = nat \<lfloor>\<bar>x\<bar>\<rfloor>;
          n = digit_count v;
          s = strip_trailing_zeros (digits_of v);
          body =
            (if v = 0 then ''0''
             else if n \<le> 21 then digits_of v
             else if length s = 1 then s @ ''e+'' @ digits_of (n - 1)
             else hd s # ''.'' @ tl s @ ''e+'' @ digits_of (n - 1))
      in if x < 0 then CHR ''-'' # body else body)"

text \<open>\<open>new Decimal(x).toFixed(dp)\<close>.\<close>

definition Decimal_toFixed :: "real \<Rightarrow> nat \<Rightarrow> string" where
  "Decimal_toFixed x dp =
     (let scaled = nat \<lfloor>\<bar>x\<bar> * 10 ^ dp + 1 / 2\<rfloor>;
          whole = digits_of (scaled div 10 ^ dp);
          frac = digits_of (scaled mod 10 ^ dp);
          body =
            (if dp = 0 then whole
             else whole @ ''.'' @ zeros (dp - digit_count (scaled mod 10 ^ dp)) @ frac)
      in if x < 0 then CHR ''-'' # body else body)"

text \<open>
  \<open>price\<close>: the fields of the response that identify the tokens and restate the amount
  (\<open>base\<close>, \<open>quote\<close>, \<open>amount\<close>, \<open>rawAmount\<close>); the price and gas fields are left out.
\<close>

record PriceResponse =
  response_base :: string
  response_quote :: string
  response_amount :: string
  response_rawAmount :: string

definition price :: "Solana \<Rightarrow> Collaborators \<Rightarrow> TradeRequest \<Rightarrow> trade_error + PriceResponse" where
  "price solanaish co req =
     (case getTradeInfo solanaish co (base req) (quote req) (amount req) (side req) of
        Inl e \<Rightarrow> Inl e
      | Inr (info, q) \<Rightarrow>
          Inr \<lparr>response_base = address (baseToken info),
               response_quote = address (quoteToken info),
               response_amount = Decimal_toFixed (amount req) (decimals (baseToken info)),
               response_rawAmount = Number_toString (requestAmount info)\<rparr>)"

section \<open>Broadcast (Solana.sendRawTransaction)\<close>

text \<open>
  The network as one call of \<open>sendRawTransaction\<close> meets it: \<open>blockHeight i\<close> is the
  chain's block height when the \<open>i\<close>-th pass of the loop starts (the call reads it once,
  before the loop), and \<open>broadcast i\<close> is what \<open>Promise.allSettled\<close> gives in that pass,
  one entry per connection of the pool.
\<close>

datatype settled = fulfilled string | rejected

record Network =
  blockHeight :: "nat \<Rightarrow> nat"
  broadcast :: "nat \<Rightarrow> settled list"

datatype send_error = MaximumBlockheightExceeded

fun is_fulfilled :: "settled \<Rightarrow> bool" where
  "is_fulfilled (fulfilled v) = True"
| "is_fulfilled rejected = False"

fun settled_value :: "settled \<Rightarrow> string" where
  "settled_value (fulfilled v) = v"
| "settled_value rejected = []"

text \<open>\<open>xs[0]\<close>: \<open>undefined\<close> (here \<open>None\<close>) on an empty array.\<close>

fun first :: "'a list \<Rightarrow> 'a option" where
  "first [] = None"
| "first (x # xs) = Some x"

text \<open>
  The loop of \<open>sendRawTransaction\<close>. \<open>blockheight\<close> is the local variable, which no pass
  assigns; \<open>i\<close> counts the passes. The result is \<open>None\<close> when the loop never ends,
  otherwise the exception or the returned signature (\<open>signatures[0]\<close>, which is
  \<open>undefined\<close> when every fulfilled value is the empty string).
\<close>

partial_function (option) sendRawTransaction_loop ::
    "(nat \<Rightarrow> settled list) \<Rightarrow> nat \<Rightarrow> nat \<Rightarrow> nat \<Rightarrow> (send_error + string option) option" where
  "sendRawTransaction_loop sendResults blockheight lastValidBlockHeight i =
     (if blockheight \<le> lastValidBlockHeight + 50 then
        (let successfulResults = filter is_fulfilled (sendResults i) in
         if length successfulResults > 0 then
           (let signatures = filter (\<lambda>sg. sg \<noteq> []) (map settled_value successfulResults) in
            if \<not> list_all (\<lambda>sg. Some sg = first signatures) signatures
            then sendRawTransaction_loop sendResults blockheight lastValidBlockHeight (i + 1)
            else Some (Inr (first signatures)))
         else sendRawTransaction_loop sendResults blockheight lastValidBlockHeight (i + 1))
      else Some (Inl MaximumBlockheightExceeded))"

definition sendRawTransaction :: "Network \<Rightarrow> nat \<Rightarrow> (send_error + string option) option" where
  "sendRawTransaction net lastValidBlockHeight =
     sendRawTransaction_loop (broadcast net) (blockHeight net 0) lastValidBlockHeight 0"

text \<open>A pass succeeds when some send is fulfilled and the non-empty signatures agree.\<close>

definition consistent_success :: "settled list \<Rightarrow> bool" where
  "consistent_success results \<longleftrightarrow>
     filter is_fulfilled results \<noteq> [] \<and>
     list_all (\<lambda>sg. Some sg =
                 first (filter (\<lambda>sg. sg \<noteq> []) (map settled_value (filter is_fulfilled results))))
       (filter (\<lambda>sg. sg \<noteq> []) (map settled_value (filter is_fulfilled results)))"

section \<open>Confirmation (Solana.confirmTransaction)\<close>

text \<open>
  The transaction detail \<open>getParsedTransaction\<close> returns (the two fields of \<open>meta\<close> that
  \<open>executeSwap\<close> reads), and what one connection answers to the status query within the
  timeout: nothing in time, an HTTP error status, a response without a status entry, or
  a status entry with its \<open>err\<close> (\<open>None\<close> is \<open>null\<close>), its \<open>confirmationStatus\<close> and the
  outcome of the detail fetch that follows a confirmed status (\<open>TxThrew\<close>: the fetch
  raised, so the promise never settles and the timeout wins; \<open>Tx None\<close>: it returned
  \<open>null\<close>). A detail whose \<open>meta\<close> is missing is not modelled.
\<close>

record TxData =
  fee :: nat
  computeUnitsConsumed :: nat

datatype tx_fetch = TxThrew | Tx "TxData option"

datatype status_reply =
    TimedOut
  | HttpNotOk nat
  | NoStatus
  | Status "string option" string tx_fetch

datatype confirm_error =
    HttpError nat
  | TransactionFailedWithError string
  | ConfirmationTimedOut

record Confirmation =
  confirmed :: bool
  txData :: "TxData option"

fun confirmTransaction :: "status_reply \<Rightarrow> confirm_error + Confirmation" where
  "confirmTransaction TimedOut = Inl ConfirmationTimedOut"
| "confirmTransaction (HttpNotOk status) = Inl (HttpError status)"
| "confirmTransaction NoStatus = Inr \<lparr>confirmed = False, txData = None\<rparr>"
| "confirmTransaction (Status (Some e) confirmationStatus fetch) =
     Inl (TransactionFailedWithError e)"
| "confirmTransaction (Status None confirmationStatus fetch) =
     (if confirmationStatus = ''confirmed'' \<or> confirmationStatus = ''finalized'' then
        (case fetch of
           TxThrew \<Rightarrow> Inl ConfirmationTimedOut
         | Tx d \<Rightarrow> Inr \<lparr>confirmed = True, txData = d\<rparr>)
      else Inr \<lparr>confirmed = False, txData = None\<rparr>)"

section \<open>Fee escalation (Solana.sendAndConfirmTransaction, Jupiter.executeSwap)\<close>

text \<open>
  The two functions run the same three nested loops and differ in three places: how a
  round is prepared, which confirmation result makes them return, and what they return.
  The loops are modelled once, with the test as a parameter: \<open>accept c\<close> is \<open>None\<close> when
  the test fails on the confirmation result \<open>c\<close>, otherwise what the function keeps of
  it. The calls that reach the network are recorded in order.
\<close>

datatype action = Send | Query | Escalate real

text \<open>
  The \<open>for\<close> loop over the connections: one status query per connection, an exception
  of \<open>confirmTransaction\<close> is caught and logged, and the loop goes on to the next
  connection. It gives the queries made and the result that made the function return,
  if any.
\<close>

fun confirm_scan ::
    "(Confirmation \<Rightarrow> 'r option) \<Rightarrow> status_reply list \<Rightarrow> action list \<times> 'r option" where
  "confirm_scan accept [] = ([], None)"
| "confirm_scan accept (reply # rest) =
     (case confirmTransaction reply of
        Inl e \<Rightarrow> (Query # fst (confirm_scan accept rest), snd (confirm_scan accept rest))
      | Inr c \<Rightarrow>
          (case accept c of
             Some kept \<Rightarrow> ([Query], Some kept)
           | None \<Rightarrow>
               (Query # fst (confirm_scan accept rest), snd (confirm_scan accept rest))))"

text \<open>
  The retry loop of one round: \<open>retryCount\<close> counts from \<open>k\<close>; \<open>nets k\<close> is the network
  the \<open>k\<close>-th submission meets and \<open>replies k\<close> the answers to the status queries after
  it. An exception of \<open>sendRawTransaction\<close> is caught and counts as a retry. The result is
  \<open>None\<close> when a submission never returns; otherwise the actions, and the signature
  and confirmation result when the function returns from inside the loop.
\<close>

function retry_loop ::
    "(Confirmation \<Rightarrow> 'r option) \<Rightarrow> nat \<Rightarrow> (nat \<Rightarrow> Network) \<Rightarrow> (nat \<Rightarrow> status_reply list)
       \<Rightarrow> nat \<Rightarrow> nat \<Rightarrow> action list \<Rightarrow> (action list \<times> (string option \<times> 'r) option) option" where
  "retry_loop accept n nets replies lastValidBlockHeight k trace =
     (if k < n then
        (case sendRawTransaction (nets k) lastValidBlockHeight of
           None \<Rightarrow> None
         | Some (Inl e) \<Rightarrow>
             retry_loop accept n nets replies lastValidBlockHeight (k + 1) (trace @ [Send])
         | Some (Inr sg) \<Rightarrow>
             (case snd (confirm_scan accept (replies k)) of
                Some kept \<Rightarrow>
                  Some (trace @ [Send] @ fst (confirm_scan accept (replies k)),
                        Some (sg, kept))
              | None \<Rightarrow>
                  retry_loop accept n nets replies lastValidBlockHeight (k + 1)
                    (trace @ [Send] @ fst (confirm_scan accept (replies k)))))
      else Some (trace, None))"
  by pat_completeness auto
termination
  by (relation "measure (\<lambda>(accept, n, nets, replies, lv, k, trace). n - k)") auto

declare retry_loop.simps [simp del]

text \<open>
  What the loop meets round by round: \<open>prepare r\<close> is the preparation of round \<open>r\<close>
  (\<open>None\<close> when it throws, otherwise the last valid block height it obtained),
  \<open>networks r k\<close> and \<open>statuses r k\<close> are the network and the status replies of retry
  \<open>k\<close> of round \<open>r\<close>.
\<close>

record Chain =
  prepare :: "nat \<Rightarrow> nat option"
  networks :: "nat \<Rightarrow> nat \<Rightarrow> Network"
  statuses :: "nat \<Rightarrow> nat \<Rightarrow> status_reply list"

datatype loop_error =
    FeeEstimationFailed
  | PreparationFailed
  | MaximumPriorityFeeReached

text \<open>
  The outer loop, \<open>while (currentPriorityFee <= maxPriorityFee)\<close>; \<open>attempt r lv\<close> is the
  retry loop of round \<open>r\<close>. The result is \<open>None\<close> when the loop, or a submission inside
  it, never ends.
\<close>

partial_function (option) escalation_loop ::
    "Settings \<Rightarrow> (nat \<Rightarrow> nat option)
       \<Rightarrow> (nat \<Rightarrow> nat \<Rightarrow> (action list \<times> (string option \<times> 'r) option) option)
       \<Rightarrow> real \<Rightarrow> nat \<Rightarrow> action list
       \<Rightarrow> (action list \<times> (loop_error + string option \<times> 'r)) option" where
  "escalation_loop cfg prep attempt currentPriorityFee r trace =
     (if currentPriorityFee \<le> maxPriorityFee cfg then
        (case prep r of
           None \<Rightarrow> Some (trace, Inl PreparationFailed)
         | Some lastValidBlockHeight \<Rightarrow>
             (case attempt r lastValidBlockHeight of
                None \<Rightarrow> None
              | Some (done, Some returned) \<Rightarrow> Some (trace @ done, Inr returned)
              | Some (done, None) \<Rightarrow>
                  escalation_loop cfg prep attempt
                    (real_of_int \<lfloor>currentPriorityFee * priorityFeeMultiplier cfg\<rfloor>) (r + 1)
                    (trace @ done @
                       [Escalate (real_of_int \<lfloor>currentPriorityFee * priorityFeeMultiplier cfg\<rfloor>)])))
      else Some (trace, Inl MaximumPriorityFeeReached))"

text \<open>
  Both functions, from the first fee on. A fee that is \<open>NaN\<close> fails the loop condition
  at once.
\<close>

definition escalate_from ::
    "(Confirmation \<Rightarrow> 'r option) \<Rightarrow> Settings \<Rightarrow> Chain \<Rightarrow> jsnum
       \<Rightarrow> (action list \<times> (loop_error + string option \<times> 'r)) option" where
  "escalate_from accept cfg chain firstFee =
     (case firstFee of
        NaN \<Rightarrow> Some ([], Inl MaximumPriorityFeeReached)
      | Num currentPriorityFee \<Rightarrow>
          escalation_loop cfg (prepare chain)
            (\<lambda>r lastValidBlockHeight.
               retry_loop accept (retryCount cfg) (networks chain r) (statuses chain r)
                 lastValidBlockHeight 0 [])
            currentPriorityFee 0 [])"

text \<open>
  \<open>sendAndConfirmTransaction\<close> prepares a round with \<open>getLatestBlockhashAndContext\<close>. Its
  test is \<open>if (confirmed)\<close>, where \<open>confirmed\<close> is the object that \<open>confirmTransaction\<close>
  returned: an object is truthy whatever its fields hold. It returns the signature.
\<close>

definition truthy :: "Confirmation \<Rightarrow> bool" where
  "truthy c = True"

definition accept_object :: "Confirmation \<Rightarrow> Confirmation option" where
  "accept_object c = (if truthy c then Some c else None)"

definition sendAndConfirmTransaction ::
    "Settings \<Rightarrow> Chain \<Rightarrow> fee_error + jsnum \<Rightarrow> (action list \<times> (loop_error + string option)) option" where
  "sendAndConfirmTransaction cfg chain estimate =
     (case estimate of
        Inl e \<Rightarrow> Some ([], Inl FeeEstimationFailed)
      | Inr firstFee \<Rightarrow>
          (case escalate_from accept_object cfg chain firstFee of
             None \<Rightarrow> None
           | Some (trace, Inl e) \<Rightarrow> Some (trace, Inl e)
           | Some (trace, Inr (sg, c)) \<Rightarrow> Some (trace, Inr sg)))"

text \<open>
  \<open>executeSwap\<close> prepares a round with \<open>getSwapObj\<close> and \<open>simulateTransaction\<close>. Its test
  is \<open>if (confirmed && txData)\<close> on the fields of the result, and it keeps \<open>txData\<close>. It
  returns the signature with the realized fee data.

  Its first fee is \<open>(await getGasPrice() * 1e9) - BASE_FEE\<close>, where \<open>getGasPrice\<close> divides
  a lamport amount by \<open>10\<^sup>9\<close>: in binary floating point the product does not give the
  lamport amount back in general, so the first fee is not computed here. It is the
  argument \<open>firstFee\<close>: an error when \<open>getGasPrice\<close> throws (its fee estimation failed),
  otherwise the number that the expression evaluates to.
\<close>

definition BASE_FEE :: real where
  "BASE_FEE = 5000"

definition accept_confirmed :: "Confirmation \<Rightarrow> TxData option" where
  "accept_confirmed c = (if confirmed c then txData c else None)"

record SwapResult =
  signature :: "string option"
  feeInLamports :: nat
  computeUnitLimit :: nat
  priorityFeePrice :: jsnum

definition swap_result :: "string option \<Rightarrow> TxData \<Rightarrow> SwapResult" where
  "swap_result sg d =
     \<lparr>signature = sg, feeInLamports = fee d, computeUnitLimit = computeUnitsConsumed d,
      priorityFeePrice =
        (case js_div (real (fee d) - BASE_FEE) (real (computeUnitsConsumed d)) of
           NaN \<Rightarrow> NaN | Num x \<Rightarrow> Num (x * 1000000))\<rparr>"

definition executeSwap ::
    "Settings \<Rightarrow> Chain \<Rightarrow> fee_error + jsnum \<Rightarrow> (action list \<times> (loop_error + SwapResult)) option" where
  "executeSwap cfg chain firstFee =
     (case firstFee of
        Inl e \<Rightarrow> Some ([], Inl FeeEstimationFailed)
      | Inr currentPriorityFee \<Rightarrow>
          (case escalate_from accept_confirmed cfg chain currentPriorityFee of
             None \<Rightarrow> None
           | Some (trace, Inl e) \<Rightarrow> Some (trace, Inl e)
           | Some (trace, Inr (sg, d)) \<Rightarrow> Some (trace, Inr (swap_result sg d))))"

section \<open>Notions for stating the results\<close>

text \<open>
  A status reply with the on-chain error replaced by a timeout, and the number of fee
  escalations among the recorded actions.
\<close>

fun forget_failure :: "status_reply \<Rightarrow> status_reply" where
  "forget_failure (Status (Some e) confirmationStatus fetch) = TimedOut"
| "forget_failure reply = reply"

fun is_Escalate :: "action \<Rightarrow> bool" where
  "is_Escalate (Escalate f) = True"
| "is_Escalate a = False"

definition escalations :: "action list \<Rightarrow> nat" where
  "escalations trace = length (filter is_Escalate trace)"

text \<open>
  A status reply that carries an on-chain error. The actions of a round in which every
  submission returns a signature and no status reply makes the function return: for each
  of the \<open>retryCount\<close> retries one submission and one status query per connection. The
  actions of \<open>n\<close> such rounds from round \<open>r\<close> on, with integer fee \<open>f\<close> and multiplier \<open>m\<close>:
  each round is followed by the escalation to the fee multiplied by \<open>m\<close>.
\<close>

fun is_failed :: "status_reply \<Rightarrow> bool" where
  "is_failed (Status (Some e) confirmationStatus fetch) = True"
| "is_failed reply = False"

definition round_actions :: "Settings \<Rightarrow> Chain \<Rightarrow> nat \<Rightarrow> action list" where
  "round_actions cfg chain r =
     concat (map (\<lambda>k. Send # replicate (length (statuses chain r k)) Query)
               [0..<retryCount cfg])"

fun exhausted_run :: "nat \<Rightarrow> (nat \<Rightarrow> action list) \<Rightarrow> nat \<Rightarrow> nat \<Rightarrow> nat \<Rightarrow> action list" where
  "exhausted_run m acts f r 0 = []"
| "exhausted_run m acts f r (Suc n) =
     acts r @ [Escalate (real (f * m))] @ exhausted_run m acts (f * m) (Suc r) n"

text \<open>
  The inputs of \<open>getBalance\<close> on which the model follows the code. The symbols are ASCII
  strings, so that \<open>toUpperCase\<close> is as modelled. And no key that the code writes to or
  reads from the objects \<open>tokenDefs\<close> and \<open>balances\<close>, both created by \<open>{}\<close>, meets a
  member of \<open>Object.prototype\<close>: neither a listed address nor the checked symbol is
  \<open>__proto__\<close> (an assignment to that key creates no property), and no mint of a token
  account is the name of a member (a mint is the base58 form of a 32-byte key, which is
  none of these names).
\<close>

definition getBalance_scope :: "TokenInfo list \<Rightarrow> Wallet \<Rightarrow> string \<Rightarrow> bool" where
  "getBalance_scope resolved wallet checked \<longleftrightarrow>
     ascii checked \<and> checked \<noteq> ''__proto__'' \<and>
     list_all (\<lambda>t. ascii (symbol t) \<and> address t \<noteq> ''__proto__'') resolved \<and>
     list_all (\<lambda>a. mint a \<notin> set Object_prototype_keys) (accounts wallet)"


section \<open>Concrete values for exercising the results\<close>

text \<open>
  A three-token list, a wallet that holds 5 SOL and one token account with 5000 USDC,
  and collaborators that quote 10 USDC for 1 SOL in either direction.
\<close>

definition fixture_tokens :: "TokenInfo list" where
  "fixture_tokens =
     [\<lparr>address = ''So11'', symbol = ''SOL'', decimals = 9\<rparr>,
      \<lparr>address = ''EPjF'', symbol = ''USDC'', decimals = 6\<rparr>,
      \<lparr>address = ''JUPy'', symbol = ''JUP'', decimals = 6\<rparr>]"

definition fixture_wallet :: Wallet where
  "fixture_wallet = \<lparr>lamports = 5000000000,
                      accounts = [\<lparr>mint = ''EPjF'', rawAmount = 5000000000\<rparr>]\<rparr>"

definition fixture_collaborators :: Collaborators where
  "fixture_collaborators =
     \<lparr>getWallet = Some fixture_wallet,
      getQuote = (\<lambda>inputSymbol outputSymbol amt.
                    if inputSymbol = ''USDC''
                    then Some \<lparr>inAmount = 10000000, outAmount = 1000000000\<rparr>
                    else Some \<lparr>inAmount = 1000000000, outAmount = 10000000\<rparr>),
      estimateGas_ok = True,
      getTokenList = fixture_tokens,
      executeSwap_result = (\<lambda>q. Some ''5sig''),
      uiAmount = (\<lambda>raw dec. real raw / 10 ^ dec)\<rparr>"

text \<open>
  Settings with a fee ceiling of 4, a multiplier of 2 and one retry per round; a
  network on which every send is fulfilled with the same signature; a
  network that rejects every send while its height grows by 100 per pass; and a chain
  whose one connection always gives the same status reply.
\<close>

definition fixture_settings :: Settings where
  "fixture_settings =
     \<lparr>defaultComputeUnits = 1000000, priorityFeePercentile = 9 / 10, priorityFeeMultiplier = 2,
      maxPriorityFee = 4, minPriorityFee = 100000, retryCount = 1\<rparr>"

definition accepting_network :: Network where
  "accepting_network = \<lparr>blockHeight = (\<lambda>i. 100), broadcast = (\<lambda>i. [fulfilled ''5sig''])\<rparr>"

definition stalled_network :: Network where
  "stalled_network = \<lparr>blockHeight = (\<lambda>i. 100 + 100 * i), broadcast = (\<lambda>i. [rejected])\<rparr>"

definition fixture_chain :: "status_reply \<Rightarrow> Chain" where
  "fixture_chain reply =
     \<lparr>prepare = (\<lambda>r. Some 100), networks = (\<lambda>r k. accepting_network),
      statuses = (\<lambda>r k. [reply])\<rparr>"

text \<open>
  A chain with two connections, which give the two status replies in turn, and settings
  with two retries per round and a fee ceiling of 2.
\<close>

definition two_connection_chain :: "status_reply \<Rightarrow> status_reply \<Rightarrow> Chain" where
  "two_connection_chain reply1 reply2 =
     \<lparr>prepare = (\<lambda>r. Some 100), networks = (\<lambda>r k. accepting_network),
      statuses = (\<lambda>r k. [reply1, reply2])\<rparr>"

definition two_retry_settings :: Settings where
  "two_retry_settings =
     \<lparr>defaultComputeUnits = 1000000, priorityFeePercentile = 9 / 10, priorityFeeMultiplier = 2,
      maxPriorityFee = 2, minPriorityFee = 100000, retryCount = 2\<rparr>"

text \<open>
  A token list in which the symbol \<open>USDC\<close> is listed twice, under two mint addresses, and
  the collaborators of the fixture with that list.
\<close>

definition duplicate_symbol_tokens :: "TokenInfo list" where
  "duplicate_symbol_tokens =
     [\<lparr>address = ''So11'', symbol = ''SOL'', decimals = 9\<rparr>,
      \<lparr>address = ''EPjF'', symbol = ''USDC'', decimals = 6\<rparr>,
      \<lparr>address = ''USDx'', symbol = ''USDC'', decimals = 6\<rparr>]"

definition duplicate_symbol_collaborators :: Collaborators where
  "duplicate_symbol_collaborators =
     fixture_collaborators\<lparr>getTokenList := duplicate_symbol_tokens\<rparr>"

text \<open>A token list with two tokens of 18 decimals.\<close>

definition fixture_tokens18 :: "TokenInfo list" where
  "fixture_tokens18 =
     [\<lparr>address = ''WETC1'', symbol = ''WETC'', decimals = 18\<rparr>,
      \<lparr>address = ''DAI1'', symbol = ''DAI'', decimals = 18\<rparr>]"

section \<open>Symbol resolution: results\<close>

lemma last_match_snoc:
  "last_match P (xs @ [x]) = (if P x then Some x else last_match P xs)"
  by (simp add: last_match_def)

lemma getTokenBySymbol_loop_take:
  "n \<le> length tokens \<Longrightarrow>
   getTokenBySymbol_loop tokens n smb =
     last_match (\<lambda>t. toUpperCase (symbol t) = toUpperCase smb) (take n tokens)"
proof (induction n)
  case 0
  show ?case by (simp add: last_match_def)
next
  case (Suc n)
  then have "take (Suc n) tokens = take n tokens @ [tokens ! n]"
    by (simp add: take_Suc_conv_app_nth)
  with Suc show ?case by (simp add: last_match_snoc)
qed

lemma getTokenBySymbol_last_match:
  "getTokenBySymbol s smb =
     last_match (\<lambda>t. toUpperCase (symbol t) = toUpperCase smb) (tokenList s)"
  by (simp add: getTokenBySymbol_def getTokenBySymbol_loop_take)

lemma foldl_store_token_ready:
  "ready (foldl store_token s ts) = ready s"
  by (induction ts arbitrary: s) (simp_all add: store_token_def)

lemma foldl_store_token_tokenList:
  "tokenList (foldl store_token s ts) = tokenList s"
  by (induction ts arbitrary: s) (simp_all add: store_token_def)

lemma tokenMap_store_token:
  "tokenMap (store_token s t) smb = (if symbol t = smb then Some t else tokenMap s smb)"
  by (simp add: store_token_def)

lemma foldl_store_token_tokenMap:
  "tokenMap (foldl store_token s ts) smb =
     (case last_match (\<lambda>t. symbol t = smb) ts of None \<Rightarrow> tokenMap s smb | Some t \<Rightarrow> Some t)"
proof (induction ts arbitrary: s rule: rev_induct)
  case Nil
  show ?case by (simp add: last_match_def)
next
  case (snoc t ts)
  show ?case
    by (simp add: snoc.IH last_match_snoc tokenMap_store_token)
qed

lemma init_tokenMap:
  "tokenMap (init tokens new_Solana) smb = last_match (\<lambda>t. symbol t = smb) tokens"
  by (simp add: init_def loadTokens_def new_Solana_def foldl_store_token_tokenMap
      split: option.splits)

lemma init_tokenList: "tokenList (init tokens new_Solana) = tokens"
  by (simp add: init_def loadTokens_def new_Solana_def foldl_store_token_tokenList)

lemma init_ready: "ready (init tokens new_Solana)"
  by (simp add: init_def new_Solana_def)

lemma getTokenForSymbol_init:
  "getTokenForSymbol (init tokens new_Solana) smb =
     Inr (case last_match (\<lambda>t. symbol t = smb) tokens of
            Some t \<Rightarrow> Some (Token t)
          | None \<Rightarrow> if smb \<in> set Object_prototype_keys then Some Inherited else None)"
  by (simp add: getTokenForSymbol_def init_ready init_tokenMap)

text \<open>
  Claim C9, as stated, says that the resolution used by the price and trade paths compares
  symbols without regard to case, and that a symbol with no match resolves to nothing.
  Neither holds. With the one-token list \<open>[USDC]\<close> the query \<open>usdc\<close> is found by
  \<open>getTokenBySymbol\<close> and is not found by \<open>getTokenForSymbol\<close>, so \<open>getTradeInfo\<close> fails with
  "base token not found". And the query \<open>constructor\<close>, which matches no symbol of the
  list, does not resolve to nothing on the price and trade path: \<open>getTokenForSymbol\<close>
  returns the member of that name inherited from \<open>Object.prototype\<close>, and the resolution
  step of \<open>getTradeInfo\<close> does not fail with "token not found".
\<close>

theorem C9_case_insensitive_counterexample:
  "getTokenBySymbol
     (init [\<lparr>address = ''EPjF'', symbol = ''USDC'', decimals = 6\<rparr>] new_Solana) ''usdc''
     = Some \<lparr>address = ''EPjF'', symbol = ''USDC'', decimals = 6\<rparr>
   \<and> getTokenForSymbol
     (init [\<lparr>address = ''EPjF'', symbol = ''USDC'', decimals = 6\<rparr>] new_Solana) ''usdc''
     = Inr None
   \<and> resolve_tokens
     (init [\<lparr>address = ''EPjF'', symbol = ''USDC'', decimals = 6\<rparr>] new_Solana)
     ''usdc'' ''USDC'' = Inl (BaseTokenNotFound ''usdc'')
   \<and> getTokenBySymbol
     (init [\<lparr>address = ''EPjF'', symbol = ''USDC'', decimals = 6\<rparr>] new_Solana)
     ''constructor'' = None
   \<and> getTokenForSymbol
     (init [\<lparr>address = ''EPjF'', symbol = ''USDC'', decimals = 6\<rparr>] new_Solana)
     ''constructor'' = Inr (Some Inherited)
   \<and> resolve_tokens
     (init [\<lparr>address = ''EPjF'', symbol = ''USDC'', decimals = 6\<rparr>] new_Solana)
     ''constructor'' ''USDC''
     = Inr (Inherited, Token \<lparr>address = ''EPjF'', symbol = ''USDC'', decimals = 6\<rparr>)"
  by (simp add: getTokenBySymbol_last_match getTokenForSymbol_init resolve_tokens_def
      init_tokenList last_match_def toUpperCase_def Object_prototype_keys_def)

text \<open>
  Claim C9, amended. For ASCII symbols, \<open>getTokenBySymbol\<close> compares the upper-cased
  symbols and returns the last entry of the token list that matches, or nothing. The
  price and trade paths do not use it: they resolve a symbol with \<open>getTokenForSymbol\<close>,
  which, on an instance initialised with a token list that has no symbol \<open>__proto__\<close>,
  returns the last entry of the list whose symbol is exactly the query (same case); when
  there is no such entry it returns \<open>null\<close>, unless the query is the name of a member of
  \<open>Object.prototype\<close>, in which case it returns that member. The resolution step of
  \<open>getTradeInfo\<close> fails with "base token not found" or "quote token not found" exactly
  for a symbol that resolved to \<open>null\<close>, the base symbol first, and otherwise goes on
  with the two values.
\<close>

theorem C9_symbol_resolution:
  assumes "ascii q" and "list_all (\<lambda>t. ascii (symbol t)) (tokenList s)"
    and "''__proto__'' \<notin> set (map symbol tokens)"
  shows "getTokenBySymbol s q =
           last_match (\<lambda>t. toUpperCase (symbol t) = toUpperCase q) (tokenList s)
       \<and> getTokenForSymbol (init tokens new_Solana) q =
           Inr (case last_match (\<lambda>t. symbol t = q) tokens of
                  Some t \<Rightarrow> Some (Token t)
                | None \<Rightarrow> if q \<in> set Object_prototype_keys then Some Inherited else None)
       \<and> resolve_tokens (init tokens new_Solana) b q =
           (case (case last_match (\<lambda>t. symbol t = b) tokens of
                    Some t \<Rightarrow> Some (Token t)
                  | None \<Rightarrow> if b \<in> set Object_prototype_keys then Some Inherited else None) of
              None \<Rightarrow> Inl (BaseTokenNotFound b)
            | Some bt \<Rightarrow>
                (case (case last_match (\<lambda>t. symbol t = q) tokens of
                         Some t \<Rightarrow> Some (Token t)
                       | None \<Rightarrow>
                           if q \<in> set Object_prototype_keys then Some Inherited else None) of
                   None \<Rightarrow> Inl (QuoteTokenNotFound q)
                 | Some qt \<Rightarrow> Inr (bt, qt)))"
  by (simp add: getTokenBySymbol_last_match getTokenForSymbol_init resolve_tokens_def)

theorem C9_symbol_resolution_witness:
  "ascii ''USDC''
   \<and> list_all (\<lambda>t. ascii (symbol t))
        (tokenList
           (init [\<lparr>address = ''A1'', symbol = ''usdc'', decimals = 6\<rparr>,
                  \<lparr>address = ''A2'', symbol = ''USDC'', decimals = 6\<rparr>,
                  \<lparr>address = ''A3'', symbol = ''USDC'', decimals = 9\<rparr>,
                  \<lparr>address = ''A4'', symbol = ''Usdc'', decimals = 6\<rparr>] new_Solana))
   \<and> ''__proto__'' \<notin> set (map symbol
         [\<lparr>address = ''A1'', symbol = ''usdc'', decimals = 6\<rparr>,
          \<lparr>address = ''A2'', symbol = ''USDC'', decimals = 6\<rparr>,
          \<lparr>address = ''A3'', symbol = ''USDC'', decimals = 9\<rparr>,
          \<lparr>address = ''A4'', symbol = ''Usdc'', decimals = 6\<rparr>])
   \<and> getTokenBySymbol
     (init [\<lparr>address = ''A1'', symbol = ''usdc'', decimals = 6\<rparr>,
            \<lparr>address = ''A2'', symbol = ''USDC'', decimals = 6\<rparr>,
            \<lparr>address = ''A3'', symbol = ''USDC'', decimals = 9\<rparr>,
            \<lparr>address = ''A4'', symbol = ''Usdc'', decimals = 6\<rparr>] new_Solana) ''USDC''
     = Some \<lparr>address = ''A4'', symbol = ''Usdc'', decimals = 6\<rparr>
   \<and> getTokenForSymbol
     (init [\<lparr>address = ''A1'', symbol = ''usdc'', decimals = 6\<rparr>,
            \<lparr>address = ''A2'', symbol = ''USDC'', decimals = 6\<rparr>,
            \<lparr>address = ''A3'', symbol = ''USDC'', decimals = 9\<rparr>,
            \<lparr>address = ''A4'', symbol = ''Usdc'', decimals = 6\<rparr>] new_Solana) ''USDC''
     = Inr (Some (Token \<lparr>address = ''A3'', symbol = ''USDC'', decimals = 9\<rparr>))
   \<and> resolve_tokens
     (init [\<lparr>address = ''A1'', symbol = ''usdc'', decimals = 6\<rparr>,
            \<lparr>address = ''A2'', symbol = ''USDC'', decimals = 6\<rparr>,
            \<lparr>address = ''A3'', symbol = ''USDC'', decimals = 9\<rparr>,
            \<lparr>address = ''A4'', symbol = ''Usdc'', decimals = 6\<rparr>] new_Solana)
     ''toString'' ''USDC''
     = Inr (Inherited, Token \<lparr>address = ''A3'', symbol = ''USDC'', decimals = 9\<rparr>)"
  using C9_symbol_resolution
    [of "''USDC''"
        "init [\<lparr>address = ''A1'', symbol = ''usdc'', decimals = 6\<rparr>,
            \<lparr>address = ''A2'', symbol = ''USDC'', decimals = 6\<rparr>,
            \<lparr>address = ''A3'', symbol = ''USDC'', decimals = 9\<rparr>,
            \<lparr>address = ''A4'', symbol = ''Usdc'', decimals = 6\<rparr>] new_Solana"
        "[\<lparr>address = ''A1'', symbol = ''usdc'', decimals = 6\<rparr>,
            \<lparr>address = ''A2'', symbol = ''USDC'', decimals = 6\<rparr>,
            \<lparr>address = ''A3'', symbol = ''USDC'', decimals = 9\<rparr>,
            \<lparr>address = ''A4'', symbol = ''Usdc'', decimals = 6\<rparr>]"
        "''toString''"]
  by (simp add: init_tokenList last_match_def toUpperCase_def ascii_def
      Object_prototype_keys_def)

section \<open>Priority fee estimation: results\<close>

lemma filter_positive_nonzero:
  "filter (\<lambda>fee. fee > 0) (filter (\<lambda>fee. fee \<noteq> 0) xs) = filter (\<lambda>fee. fee > (0::real)) xs"
  by (induction xs) auto

lemma percentile_index_in_range:
  assumes "0 < p" "p \<le> 1" "0 < n"
  shows "1 \<le> \<lceil>real n * p\<rceil> \<and> \<lceil>real n * p\<rceil> \<le> int n"
proof
  have "0 < real n * p" using assms by simp
  then show "1 \<le> \<lceil>real n * p\<rceil>" by (simp add: ceiling_less_iff flip: not_less)
  have "real n * p \<le> real n * 1"
    using assms by (intro mult_left_mono) simp_all
  then have "real n * p \<le> of_int (int n)" by simp
  then show "\<lceil>real n * p\<rceil> \<le> int n" by (simp only: ceiling_le_iff)
qed

lemma estimate_discards_zeros:
  "estimatePriorityFees cfg cache now later (Samples (filter (\<lambda>fee. fee \<noteq> 0) samples)) =
   estimatePriorityFees cfg cache now later (Samples samples)"
  by (cases "cached_fee cache now")
    (simp_all add: estimatePriorityFees_def filter_positive_nonzero del: filter_filter)

lemma estimate_some_positive:
  assumes wf: "well_formed cfg" and miss: "cached_fee cache now = None"
    and pos: "filter (\<lambda>fee. fee > 0) samples \<noteq> []"
  shows "\<exists>v. estimatePriorityFees cfg cache now later (Samples samples) =
               (Inr (Num v), Some (later, Num v)) \<and> minimumFee cfg \<le> v"
proof -
  let ?fees = "sort (filter (\<lambda>fee. fee > 0) samples)"
  let ?i = "\<lceil>real (length ?fees) * priorityFeePercentile cfg\<rceil>"
  have len: "0 < length ?fees" using pos by simp
  have "1 \<le> ?i \<and> ?i \<le> int (length ?fees)"
    using wf len by (intro percentile_index_in_range) (simp_all add: well_formed_def)
  then have at: "fee_at ?fees (?i - 1) = Num (?fees ! nat (?i - 1))"
    by (simp add: fee_at_def)
  show ?thesis
    using pos at miss by (simp add: estimatePriorityFees_def Let_def)
qed

lemma estimate_none_positive:
  assumes "cached_fee cache now = None" and "filter (\<lambda>fee. fee > 0) samples = []"
  shows "estimatePriorityFees cfg cache now later (Samples samples) =
           (Inr (Num (minimumFee cfg)), cache)"
  using assms by (simp add: estimatePriorityFees_def Let_def)

lemma minimumFee_pos: "well_formed cfg \<Longrightarrow> 0 < minimumFee cfg"
  by (simp add: well_formed_def minimumFee_def)

text \<open>
  Claim C4. For a well-formed configuration and a call that does not hit the cache:
  the zero-valued samples do not change the result; if a positive sample remains, the
  call returns a number that is at least the configured minimum fee
  \<open>minPriorityFee / defaultComputeUnits * 1000000\<close>; if the list is empty or holds no
  positive sample (all zeros), it returns exactly that minimum fee, which is not zero.
\<close>

theorem C4_estimate_at_least_minimum:
  assumes "well_formed cfg" and "cached_fee cache now = None"
  shows "estimatePriorityFees cfg cache now later (Samples (filter (\<lambda>fee. fee \<noteq> 0) samples))
           = estimatePriorityFees cfg cache now later (Samples samples)
         \<and> ((\<exists>fee \<in> set samples. 0 < fee) \<longrightarrow>
              (\<exists>v. fst (estimatePriorityFees cfg cache now later (Samples samples)) = Inr (Num v)
                   \<and> minimumFee cfg \<le> v))
         \<and> ((\<forall>fee \<in> set samples. fee \<le> 0) \<longrightarrow>
              fst (estimatePriorityFees cfg cache now later (Samples samples))
                = Inr (Num (minimumFee cfg))
              \<and> minimumFee cfg \<noteq> 0)"
proof (intro conjI impI)
  show "estimatePriorityFees cfg cache now later (Samples (filter (\<lambda>fee. fee \<noteq> 0) samples))
          = estimatePriorityFees cfg cache now later (Samples samples)"
    by (rule estimate_discards_zeros)
next
  assume "\<exists>fee \<in> set samples. 0 < fee"
  then have "filter (\<lambda>fee. fee > 0) samples \<noteq> []"
    by (simp add: filter_empty_conv)
  from estimate_some_positive [OF assms this, of later]
  show "\<exists>v. fst (estimatePriorityFees cfg cache now later (Samples samples)) = Inr (Num v)
            \<and> minimumFee cfg \<le> v"
    by auto
next
  assume "\<forall>fee \<in> set samples. fee \<le> 0"
  then have "filter (\<lambda>fee. fee > 0) samples = []"
    by (auto simp add: filter_empty_conv)
  from estimate_none_positive [OF assms(2) this]
  show "fst (estimatePriorityFees cfg cache now later (Samples samples))
          = Inr (Num (minimumFee cfg))"
    by simp
next
  assume "\<forall>fee \<in> set samples. fee \<le> 0"
  from minimumFee_pos [OF assms(1)] show "minimumFee cfg \<noteq> 0" by simp
qed

theorem C4_estimate_at_least_minimum_witness:
  "well_formed \<lparr>defaultComputeUnits = 200000, priorityFeePercentile = 9 / 10,
       priorityFeeMultiplier = 2, maxPriorityFee = 2000000, minPriorityFee = 100000,
       retryCount = 3\<rparr>
   \<and> cached_fee (Some (0, Num 7)) 10000 = None
   \<and> minimumFee \<lparr>defaultComputeUnits = 200000, priorityFeePercentile = 9 / 10,
       priorityFeeMultiplier = 2, maxPriorityFee = 2000000, minPriorityFee = 100000,
       retryCount = 3\<rparr> = 500000
   \<and> fst (estimatePriorityFees \<lparr>defaultComputeUnits = 200000, priorityFeePercentile = 9 / 10,
       priorityFeeMultiplier = 2, maxPriorityFee = 2000000, minPriorityFee = 100000,
       retryCount = 3\<rparr> (Some (0, Num 7)) 10000 10001 (Samples [0, 5, 1000000, 0, 3]))
       = Inr (Num 1000000)
   \<and> fst (estimatePriorityFees \<lparr>defaultComputeUnits = 200000, priorityFeePercentile = 9 / 10,
       priorityFeeMultiplier = 2, maxPriorityFee = 2000000, minPriorityFee = 100000,
       retryCount = 3\<rparr> (Some (0, Num 7)) 10000 10001 (Samples [0, 5, 7, 0, 3]))
       = Inr (Num 500000)
   \<and> fst (estimatePriorityFees \<lparr>defaultComputeUnits = 200000, priorityFeePercentile = 9 / 10,
       priorityFeeMultiplier = 2, maxPriorityFee = 2000000, minPriorityFee = 100000,
       retryCount = 3\<rparr> (Some (0, Num 7)) 10000 10001 (Samples [0, 0]))
       = Inr (Num 500000)"
  using C4_estimate_at_least_minimum
    [of "\<lparr>defaultComputeUnits = 200000, priorityFeePercentile = 9 / 10,
       priorityFeeMultiplier = 2, maxPriorityFee = 2000000, minPriorityFee = 100000,
       retryCount = 3\<rparr>" "Some (0, Num 7)" 10000 10001 "[0, 0]"]
  by (simp add: well_formed_def cached_fee_def PRIORITY_FEE_CACHE_MS_def minimumFee_def
      estimatePriorityFees_def fee_at_def Let_def)

section \<open>Trade guards: results\<close>

lemmas fixture_eval = fixture_tokens_def fixture_wallet_def fixture_collaborators_def
  trade_def getTradeInfo_def resolve_tokens_def getTokenForSymbol_init last_match_def
  limit_price_guard_def balance_guard_def getBalance_def tokenDefs_def wanted_def
  toUpperCase_def js_div_def DECIMAL_MULTIPLIER_def Decimal_of_number_def Decimal_of_entry_def
  Let_def

lemma limit_price_guard_cases:
  "limit_price_guard req info = None \<or> limit_price_guard req info = Some DecimalError
   \<or> limit_price_guard req info = Some SWAP_PRICE_EXCEEDS_LIMIT_PRICE
   \<or> limit_price_guard req info = Some SWAP_PRICE_LOWER_THAN_LIMIT_PRICE"
  by (auto simp: limit_price_guard_def Decimal_of_number_def split: option.splits jsnum.splits)

lemma limit_price_guard_exceeds:
  "limit_price_guard req info = Some SWAP_PRICE_EXCEEDS_LIMIT_PRICE \<longleftrightarrow>
     side req = BUY \<and> (\<exists>lp p. limitPrice req = Some lp \<and> expectedPrice info = Num p \<and> lp < p)"
  by (auto simp: limit_price_guard_def Decimal_of_number_def split: option.splits jsnum.splits)

lemma limit_price_guard_lower:
  "limit_price_guard req info = Some SWAP_PRICE_LOWER_THAN_LIMIT_PRICE \<longleftrightarrow>
     side req = SELL \<and> (\<exists>lp p. limitPrice req = Some lp \<and> expectedPrice info = Num p \<and> p < lp)"
  by (cases "side req")
     (auto simp: limit_price_guard_def Decimal_of_number_def split: option.splits jsnum.splits)

lemma balance_guard_cases:
  "balance_guard co kp req info \<in> {None, Some DecimalError,
      Some INSUFFICIENT_BASE_TOKEN_BALANCE, Some INSUFFICIENT_QUOTE_TOKEN_BALANCE}"
  by (auto simp: balance_guard_def Decimal_of_entry_def Let_def split: option.splits)



lemma balance_guard_decimal:
  "balance_guard co kp req info = Some DecimalError \<longleftrightarrow>
     getBalance (uiAmount co) (getTokenList co) kp
       (Some [if side req = SELL then symbol (baseToken info) else symbol (quoteToken info)])
       (if side req = SELL then symbol (baseToken info) else symbol (quoteToken info)) = None"
  by (cases "side req")
     (auto simp: balance_guard_def Decimal_of_entry_def Let_def split: option.splits)

lemma trade_after_info:
  assumes "getWallet co = Some kp"
    and "getTradeInfo solanaish co (base req) (quote req) (amount req) (side req) = Inr (info, q)"
  shows "trade solanaish co req =
     (case limit_price_guard req info of
                  Some e \<Rightarrow> ([], Inl e)
                | None \<Rightarrow>
                    (let checked =
                           (if side req = SELL then symbol (baseToken info)
                            else symbol (quoteToken info))
                     in case balance_guard co kp req info of
                          Some e \<Rightarrow> ([GetBalance [checked]], Inl e)
                        | None \<Rightarrow>
                            (case executeSwap_result co q of
                               None \<Rightarrow> ([GetBalance [checked], ExecuteSwap], Inl SWAP_FAILED)
                             | Some txHash \<Rightarrow>
                                 ([GetBalance [checked], ExecuteSwap], Inr txHash))))"
  using assms by (simp add: trade_def)

lemma trade_decimal_error:
  assumes "getWallet co = Some kp"
    and "getTradeInfo solanaish co (base req) (quote req) (amount req) (side req) = Inr (info, q)"
    and "limit_price_guard req info = None"
  shows "trade solanaish co req =
           ([GetBalance [if side req = SELL then symbol (baseToken info)
                         else symbol (quoteToken info)]], Inl DecimalError)
         \<longleftrightarrow> balance_guard co kp req info = Some DecimalError"
    and "snd (trade solanaish co req) = Inl DecimalError
         \<longleftrightarrow> balance_guard co kp req info = Some DecimalError"
  by (auto simp: trade_after_info [OF assms(1,2)] assms(3) Let_def split: option.splits)

text \<open>
  Claim C6. Once the wallet is loaded and \<open>getTradeInfo\<close> has returned, \<open>trade\<close> fails
  with "swap price exceeds limit price" exactly when the side is BUY, a limit price is
  given and the expected price is greater than it, and with "swap price lower than limit
  price" exactly when the side is SELL, a limit price is given and the expected price is
  less than it; in either case \<open>trade\<close> has read no balance and executed no swap, so
  nothing was submitted. With the limit price absent the guard lets every request pass,
  and \<open>trade\<close> goes on to the balance read.
\<close>

theorem C6_limit_price_guard:
  assumes "getWallet co = Some kp"
    and "getTradeInfo solanaish co (base req) (quote req) (amount req) (side req) = Inr (info, q)"
  shows "(snd (trade solanaish co req) = Inl SWAP_PRICE_EXCEEDS_LIMIT_PRICE \<longleftrightarrow>
            side req = BUY \<and>
            (\<exists>lp p. limitPrice req = Some lp \<and> expectedPrice info = Num p \<and> lp < p))
       \<and> (snd (trade solanaish co req) = Inl SWAP_PRICE_LOWER_THAN_LIMIT_PRICE \<longleftrightarrow>
            side req = SELL \<and>
            (\<exists>lp p. limitPrice req = Some lp \<and> expectedPrice info = Num p \<and> p < lp))
       \<and> (snd (trade solanaish co req) = Inl SWAP_PRICE_EXCEEDS_LIMIT_PRICE
            \<or> snd (trade solanaish co req) = Inl SWAP_PRICE_LOWER_THAN_LIMIT_PRICE
           \<longrightarrow> fst (trade solanaish co req) = [])
       \<and> (limitPrice req = None \<longrightarrow>
            limit_price_guard req info = None \<and> fst (trade solanaish co req) \<noteq> [])"
proof -
  note t = trade_after_info [OF assms]
  have bg: "balance_guard co kp req info \<noteq> Some SWAP_PRICE_EXCEEDS_LIMIT_PRICE"
           "balance_guard co kp req info \<noteq> Some SWAP_PRICE_LOWER_THAN_LIMIT_PRICE"
    using balance_guard_cases [of co kp req info] by auto
  have a: "snd (trade solanaish co req) = Inl SWAP_PRICE_EXCEEDS_LIMIT_PRICE \<longleftrightarrow>
           limit_price_guard req info = Some SWAP_PRICE_EXCEEDS_LIMIT_PRICE"
    using bg by (auto simp: t Let_def split: option.splits)
  have b: "snd (trade solanaish co req) = Inl SWAP_PRICE_LOWER_THAN_LIMIT_PRICE \<longleftrightarrow>
           limit_price_guard req info = Some SWAP_PRICE_LOWER_THAN_LIMIT_PRICE"
    using bg by (auto simp: t Let_def split: option.splits)
  have c: "limit_price_guard req info \<noteq> None \<Longrightarrow> fst (trade solanaish co req) = []"
    by (auto simp: t)
  have d: "limitPrice req = None \<Longrightarrow> limit_price_guard req info = None"
    by (simp add: limit_price_guard_def)
  have e: "limit_price_guard req info = None \<Longrightarrow> fst (trade solanaish co req) \<noteq> []"
    by (auto simp: t Let_def split: option.splits)
  have c': "snd (trade solanaish co req) = Inl SWAP_PRICE_EXCEEDS_LIMIT_PRICE
            \<or> snd (trade solanaish co req) = Inl SWAP_PRICE_LOWER_THAN_LIMIT_PRICE
           \<longrightarrow> fst (trade solanaish co req) = []"
    using c by (auto simp: a b)
  show ?thesis
    unfolding a b limit_price_guard_exceeds limit_price_guard_lower
    using c' d e unfolding a b limit_price_guard_exceeds limit_price_guard_lower
    by blast
qed

theorem C6_limit_price_guard_witness:
  "getWallet fixture_collaborators = Some fixture_wallet
   \<and> getTradeInfo (init fixture_tokens new_Solana) fixture_collaborators ''SOL'' ''USDC'' 1 BUY
       = Inr (\<lparr>baseToken = \<lparr>address = ''So11'', symbol = ''SOL'', decimals = 9\<rparr>,
                quoteToken = \<lparr>address = ''EPjF'', symbol = ''USDC'', decimals = 6\<rparr>,
                requestAmount = 1000000000, expectedPrice = Num 10, expectedAmount = 10\<rparr>,
              \<lparr>inAmount = 10000000, outAmount = 1000000000\<rparr>)
   \<and> trade (init fixture_tokens new_Solana) fixture_collaborators
         \<lparr>base = ''SOL'', quote = ''USDC'', amount = 1, side = BUY, limitPrice = Some 9\<rparr>
       = ([], Inl SWAP_PRICE_EXCEEDS_LIMIT_PRICE)
   \<and> trade (init fixture_tokens new_Solana) fixture_collaborators
         \<lparr>base = ''SOL'', quote = ''USDC'', amount = 1, side = SELL,
          limitPrice = Some 99999999999\<rparr>
       = ([], Inl SWAP_PRICE_LOWER_THAN_LIMIT_PRICE)
   \<and> trade (init fixture_tokens new_Solana) fixture_collaborators
         \<lparr>base = ''SOL'', quote = ''USDC'', amount = 1, side = SELL, limitPrice = None\<rparr>
       = ([GetBalance [''SOL''], ExecuteSwap], Inr ''5sig'')"
  using C6_limit_price_guard
    [of fixture_collaborators fixture_wallet "init fixture_tokens new_Solana"
        "\<lparr>base = ''SOL'', quote = ''USDC'', amount = 1, side = BUY, limitPrice = Some 9\<rparr>"
        "\<lparr>baseToken = \<lparr>address = ''So11'', symbol = ''SOL'', decimals = 9\<rparr>,
          quoteToken = \<lparr>address = ''EPjF'', symbol = ''USDC'', decimals = 6\<rparr>,
          requestAmount = 1000000000, expectedPrice = Num 10, expectedAmount = 10\<rparr>"
        "\<lparr>inAmount = 10000000, outAmount = 1000000000\<rparr>"]
  by (simp add: fixture_eval)

subsection \<open>The balance guard\<close>




subsection \<open>A balance without an entry\<close>

lemma tokenDefs_last_match:
  "tokenDefs resolved symbols m =
     map_option (\<lambda>t. (symbol t, decimals t))
       (last_match (\<lambda>t. address t = m \<and> wanted symbols (toUpperCase (symbol t))) resolved)"
  unfolding tokenDefs_def
proof (induction resolved rule: rev_induct)
  case Nil
  show ?case by (simp add: last_match_def)
next
  case (snoc t ts)
  then show ?case by (simp add: last_match_snoc)
qed

lemma process_accounts_None_iff:
  "process_accounts toUi defs vs balances sy = None \<longleftrightarrow>
     balances sy = None \<and> (\<forall>v \<in> set vs. \<forall>d. defs (mint v) \<noteq> Some (sy, d))"
proof (induction vs arbitrary: balances)
  case Nil
  show ?case by simp
next
  case (Cons v vs)
  show ?case
  proof (cases "defs (mint v)")
    case None
    then show ?thesis by (simp add: Cons.IH)
  next
    case (Some entry)
    obtain sy' dec where "entry = (sy', dec)" by (cases entry)
    with Some show ?thesis by (auto simp: Cons.IH)
  qed
qed

lemma getBalance_None_iff:
  "getBalance toUi resolved w (Some [sy]) sy = None \<longleftrightarrow>
     sy \<noteq> ''SOL'' \<and>
     (\<forall>a \<in> set (accounts w). \<forall>t.
        last_match (\<lambda>t. address t = mint a \<and> toUpperCase (symbol t) = toUpperCase sy) resolved
          = Some t \<longrightarrow> symbol t \<noteq> sy)"
proof -
  have sol: "toUpperCase ''SOL'' = ''SOL''" by (simp add: toUpperCase_def)
  have "(if wanted (Some [sy]) ''SOL'' then [''SOL'' \<mapsto> toUi (lamports w) 9] else Map.empty) sy
          = None \<longleftrightarrow> sy \<noteq> ''SOL''"
    using sol by (auto simp: wanted_def)
  moreover have "(\<forall>d. tokenDefs resolved (Some [sy]) m \<noteq> Some (sy, d)) \<longleftrightarrow>
       (\<forall>t. last_match (\<lambda>t. address t = m \<and> toUpperCase (symbol t) = toUpperCase sy) resolved
          = Some t \<longrightarrow> symbol t \<noteq> sy)" for m
    by (auto simp: tokenDefs_last_match wanted_def)
  ultimately show ?thesis
    by (simp add: getBalance_def process_accounts_None_iff)
qed

text \<open>
  Claim C10, as stated, fails in two ways. The wallet of the fixture holds no token
  account for \<open>SOL\<close>, yet \<open>getBalance\<close> reports an entry for \<open>SOL\<close> (the native balance),
  and a SELL of 10 SOL fails with "insufficient base token balance". And when the token
  list has the symbol \<open>USDC\<close> under two mints, the token being checked is the one listed
  last (mint \<open>USDx\<close>), of which the wallet holds no account; yet \<open>getBalance\<close> reports an
  entry for \<open>USDC\<close>, from the wallet's account of the other mint, and a SELL of 10000 USDC
  fails with "insufficient base token balance".
\<close>

theorem C10_native_balance_counterexample:
  "map mint (accounts fixture_wallet) = [''EPjF'']
   \<and> getBalance (uiAmount fixture_collaborators) fixture_tokens fixture_wallet
       (Some [''SOL'']) ''SOL'' = Some 5
   \<and> trade (init fixture_tokens new_Solana) fixture_collaborators
         \<lparr>base = ''SOL'', quote = ''USDC'', amount = 10, side = SELL, limitPrice = None\<rparr>
       = ([GetBalance [''SOL'']], Inl INSUFFICIENT_BASE_TOKEN_BALANCE)
   \<and> getTokenForSymbol (init duplicate_symbol_tokens new_Solana) ''USDC''
       = Inr (Some (Token \<lparr>address = ''USDx'', symbol = ''USDC'', decimals = 6\<rparr>))
   \<and> getBalance (uiAmount duplicate_symbol_collaborators) duplicate_symbol_tokens fixture_wallet
       (Some [''USDC'']) ''USDC'' = Some 5000
   \<and> trade (init duplicate_symbol_tokens new_Solana) duplicate_symbol_collaborators
         \<lparr>base = ''USDC'', quote = ''SOL'', amount = 10000, side = SELL, limitPrice = None\<rparr>
       = ([GetBalance [''USDC'']], Inl INSUFFICIENT_BASE_TOKEN_BALANCE)"
  by (simp add: fixture_eval duplicate_symbol_tokens_def duplicate_symbol_collaborators_def)

text \<open>
  Claim C10, amended. Let the checked symbol be the base token's for a SELL and the quote
  token's for a BUY, let the request have passed the limit-price guard, and let the
  inputs be in the scope of the model of \<open>getBalance\<close> (ASCII symbols, no key that meets a
  member of \<open>Object.prototype\<close>). \<open>getBalance\<close> returns a mapping with no entry for the checked symbol
  exactly when the symbol is not \<open>SOL\<close> and the wallet holds no token account whose mint
  is listed under exactly that symbol, where the listing of a mint is the last entry of
  the token list with that address among the entries whose symbol equals the checked
  symbol up to case. Exactly in that case \<open>trade\<close> fails after the balance read with the
  error of the \<open>Decimal\<close> constructor, which is not an insufficient-balance error.
\<close>

theorem C10_absent_balance_entry:
  assumes "getWallet co = Some kp"
    and "getTradeInfo solanaish co (base req) (quote req) (amount req) (side req) = Inr (info, q)"
    and "limit_price_guard req info = None"
    and "checked = (if side req = SELL then symbol (baseToken info) else symbol (quoteToken info))"
    and "getBalance_scope (getTokenList co) kp checked"
  shows "(getBalance (uiAmount co) (getTokenList co) kp (Some [checked]) checked = None \<longleftrightarrow>
            checked \<noteq> ''SOL'' \<and>
            (\<forall>a \<in> set (accounts kp). \<forall>t.
               last_match (\<lambda>t. address t = mint a
                                \<and> toUpperCase (symbol t) = toUpperCase checked) (getTokenList co)
                 = Some t \<longrightarrow> symbol t \<noteq> checked))
       \<and> (trade solanaish co req = ([GetBalance [checked]], Inl DecimalError) \<longleftrightarrow>
            getBalance (uiAmount co) (getTokenList co) kp (Some [checked]) checked = None)
       \<and> (snd (trade solanaish co req) = Inl DecimalError \<longleftrightarrow>
            getBalance (uiAmount co) (getTokenList co) kp (Some [checked]) checked = None)"
proof (intro conjI)
  show "getBalance (uiAmount co) (getTokenList co) kp (Some [checked]) checked = None \<longleftrightarrow>
            checked \<noteq> ''SOL'' \<and>
            (\<forall>a \<in> set (accounts kp). \<forall>t.
               last_match (\<lambda>t. address t = mint a
                                \<and> toUpperCase (symbol t) = toUpperCase checked) (getTokenList co)
                 = Some t \<longrightarrow> symbol t \<noteq> checked)"
    by (rule getBalance_None_iff)
  show "trade solanaish co req = ([GetBalance [checked]], Inl DecimalError) \<longleftrightarrow>
            getBalance (uiAmount co) (getTokenList co) kp (Some [checked]) checked = None"
    unfolding assms(4) trade_decimal_error(1) [OF assms(1-3)] balance_guard_decimal ..
  show "snd (trade solanaish co req) = Inl DecimalError \<longleftrightarrow>
            getBalance (uiAmount co) (getTokenList co) kp (Some [checked]) checked = None"
    unfolding assms(4) trade_decimal_error(2) [OF assms(1-3)] balance_guard_decimal ..
qed

theorem C10_absent_balance_entry_witness:
  "getWallet fixture_collaborators = Some fixture_wallet
   \<and> getTradeInfo (init fixture_tokens new_Solana) fixture_collaborators
         ''JUP'' ''USDC'' 1 SELL
       = Inr (\<lparr>baseToken = \<lparr>address = ''JUPy'', symbol = ''JUP'', decimals = 6\<rparr>,
                quoteToken = \<lparr>address = ''EPjF'', symbol = ''USDC'', decimals = 6\<rparr>,
                requestAmount = 1000000, expectedPrice = Num (1 / 100),
                expectedAmount = 10\<rparr>,
              \<lparr>inAmount = 1000000000, outAmount = 10000000\<rparr>)
   \<and> getBalance_scope (getTokenList fixture_collaborators) fixture_wallet ''JUP''
   \<and> getBalance (uiAmount fixture_collaborators) fixture_tokens fixture_wallet
       (Some [''JUP'']) ''JUP'' = None
   \<and> trade (init fixture_tokens new_Solana) fixture_collaborators
         \<lparr>base = ''JUP'', quote = ''USDC'', amount = 1, side = SELL, limitPrice = None\<rparr>
       = ([GetBalance [''JUP'']], Inl DecimalError)"
  using C10_absent_balance_entry
    [of fixture_collaborators fixture_wallet "init fixture_tokens new_Solana"
        "\<lparr>base = ''JUP'', quote = ''USDC'', amount = 1, side = SELL, limitPrice = None\<rparr>"
        "\<lparr>baseToken = \<lparr>address = ''JUPy'', symbol = ''JUP'', decimals = 6\<rparr>,
          quoteToken = \<lparr>address = ''EPjF'', symbol = ''USDC'', decimals = 6\<rparr>,
          requestAmount = 1000000, expectedPrice = Num (1 / 100), expectedAmount = 10\<rparr>"
        "\<lparr>inAmount = 1000000000, outAmount = 10000000\<rparr>" "''JUP''"]
  by (simp add: fixture_eval ascii_def getBalance_scope_def Object_prototype_keys_def)

section \<open>Price response: results\<close>

text \<open>
  Claim C5 on the code. For a price request with amount 10000 on a base token with 18
  decimals, the returned \<open>amount\<close> is the string \<open>10000.000000000000000000\<close>, written by
  \<open>Decimal.toFixed\<close>; the returned \<open>rawAmount\<close> is \<open>requestAmount.toString()\<close> of the number
  \<open>Math.floor(10000 * 10 ** 18)\<close>, which is at least \<open>10\<^sup>2\<^sup>1\<close> and is therefore written in
  exponent notation, \<open>1e+22\<close>, and not as the digit string \<open>10000000000000000000000\<close>.
\<close>

theorem C5_raw_amount_exponent_notation:
  "price (init fixture_tokens18 new_Solana) fixture_collaborators
     \<lparr>base = ''WETC'', quote = ''DAI'', amount = 10000, side = BUY, limitPrice = None\<rparr>
   = Inr \<lparr>response_base = ''WETC1'', response_quote = ''DAI1'',
          response_amount = ''10000.000000000000000000'',
          response_rawAmount = ''1e+22''\<rparr>"
  apply (simp add: price_def getTradeInfo_def resolve_tokens_def getTokenForSymbol_init
      last_match_def fixture_tokens18_def fixture_collaborators_def DECIMAL_MULTIPLIER_def)
  apply (simp add: Decimal_toFixed_def Number_toString_def strip_trailing_zeros_def Let_def)
  apply (simp add: digits_of.simps)
  apply (simp add: digit_count.simps)
  apply (simp add: zeros.simps digits_of.simps)
  done

section \<open>Broadcast: results\<close>

lemma sendRawTransaction_body_eq:
  "(if bh \<le> lv + 50 then
        (let successfulResults = filter is_fulfilled (results i) in
         if length successfulResults > 0 then
           (let signatures = filter (\<lambda>sg. sg \<noteq> []) (map settled_value successfulResults) in
            if \<not> list_all (\<lambda>sg. Some sg = first signatures) signatures
            then f results bh lv (i + 1)
            else Some (Inr (first signatures)))
         else f results bh lv (i + 1))
      else Some (Inl MaximumBlockheightExceeded)) =
   (if bh \<le> lv + 50 then
        (if consistent_success (results i)
         then Some (Inr (first (filter (\<lambda>sg. sg \<noteq> [])
                 (map settled_value (filter is_fulfilled (results i))))))
         else f results bh lv (i + 1))
      else Some (Inl MaximumBlockheightExceeded))"
  by (simp add: consistent_success_def Let_def)

lemma sendRawTransaction_loop_step:
  "sendRawTransaction_loop results bh lv i =
     (if bh \<le> lv + 50 then
        (if consistent_success (results i)
         then Some (Inr (first (filter (\<lambda>sg. sg \<noteq> [])
                 (map settled_value (filter is_fulfilled (results i))))))
         else sendRawTransaction_loop results bh lv (i + 1))
      else Some (Inl MaximumBlockheightExceeded))"
  by (subst sendRawTransaction_loop.simps) (rule sendRawTransaction_body_eq)

lemma sendRawTransaction_loop_exceeded:
  "lv + 50 < bh \<Longrightarrow> sendRawTransaction_loop results bh lv i = Some (Inl MaximumBlockheightExceeded)"
  by (subst sendRawTransaction_loop_step) simp

lemma sendRawTransaction_loop_success:
  assumes "bh \<le> lv + 50" and "consistent_success (results (i + n))"
    and "\<forall>j < n. \<not> consistent_success (results (i + j))"
  shows "sendRawTransaction_loop results bh lv i =
           Some (Inr (first (filter (\<lambda>sg. sg \<noteq> [])
                 (map settled_value (filter is_fulfilled (results (i + n)))))))"
  using assms
proof (induction n arbitrary: i)
  case 0
  then show ?case by (subst sendRawTransaction_loop_step) simp
next
  case (Suc n)
  have "\<not> consistent_success (results i)" using Suc.prems(3) by force
  moreover have "sendRawTransaction_loop results bh lv (i + 1) =
           Some (Inr (first (filter (\<lambda>sg. sg \<noteq> [])
                 (map settled_value (filter is_fulfilled (results (i + 1 + n)))))))"
  proof (rule Suc.IH)
    show "bh \<le> lv + 50" by fact
    show "consistent_success (results (i + 1 + n))" using Suc.prems(2) by simp
    show "\<forall>j<n. \<not> consistent_success (results (i + 1 + j))"
    proof (intro allI impI)
      fix j assume "j < n"
      then have "Suc j < Suc n" by simp
      with Suc.prems(3) have "\<not> consistent_success (results (i + Suc j))" by blast
      then show "\<not> consistent_success (results (i + 1 + j))" by simp
    qed
  qed
  ultimately show ?case
    using Suc.prems(1) by (subst sendRawTransaction_loop_step) simp
qed

lemma sendRawTransaction_loop_returns:
  assumes "sendRawTransaction_loop results bh lv i = Some y"
  shows "lv + 50 < bh \<or> (\<exists>j \<ge> i. consistent_success (results j))"
proof (rule sendRawTransaction_loop.raw_induct
    [where P = "\<lambda>results bh lv i y. lv + 50 < bh \<or> (\<exists>j \<ge> i. consistent_success (results j))",
     OF _ assms])
  fix loop :: "(nat \<Rightarrow> settled list) \<Rightarrow> nat \<Rightarrow> nat \<Rightarrow> nat \<Rightarrow> (send_error + string option) option"
  fix results bh lv i y
  assume IH: "\<And>results bh lv i y. loop results bh lv i = Some y \<Longrightarrow>
                lv + 50 < bh \<or> (\<exists>j \<ge> i. consistent_success (results j))"
  assume body: "(if bh \<le> lv + 50 then
        (let successfulResults = filter is_fulfilled (results i) in
         if length successfulResults > 0 then
           (let signatures = filter (\<lambda>sg. sg \<noteq> []) (map settled_value successfulResults) in
            if \<not> list_all (\<lambda>sg. Some sg = first signatures) signatures
            then loop results bh lv (i + 1)
            else Some (Inr (first signatures)))
         else loop results bh lv (i + 1))
      else Some (Inl MaximumBlockheightExceeded)) = Some y"
  show "lv + 50 < bh \<or> (\<exists>j \<ge> i. consistent_success (results j))"
  proof (cases "bh \<le> lv + 50")
    case False
    then show ?thesis by simp
  next
    case le: True
    show ?thesis
    proof (cases "consistent_success (results i)")
      case True
      then show ?thesis by blast
    next
      case False
      from body have "loop results bh lv (i + 1) = Some y"
        unfolding sendRawTransaction_body_eq using le False by simp
      from IH [OF this] have "lv + 50 < bh \<or> (\<exists>j \<ge> i + 1. consistent_success (results j))" .
      then show ?thesis
      proof
        assume "lv + 50 < bh"
        then show ?thesis by simp
      next
        assume "\<exists>j \<ge> i + 1. consistent_success (results j)"
        then obtain j where "i + 1 \<le> j" and "consistent_success (results j)" by blast
        then have "i \<le> j \<and> consistent_success (results j)" by simp
        then show ?thesis by blast
      qed
    qed
  qed
qed

lemma sendRawTransaction_loop_diverges:
  assumes "bh \<le> lv + 50" and "\<forall>j \<ge> i. \<not> consistent_success (results j)"
  shows "sendRawTransaction_loop results bh lv i = None"
proof (cases "sendRawTransaction_loop results bh lv i")
  case None
  then show ?thesis .
next
  case (Some y)
  from sendRawTransaction_loop_returns [OF this]
  have "lv + 50 < bh \<or> (\<exists>j \<ge> i. consistent_success (results j))" .
  with assms(2) have "lv + 50 < bh" by blast
  with assms(1) show ?thesis by simp
qed

lemma sendRawTransaction_fails_iff:
  "sendRawTransaction net lv = Some (Inl MaximumBlockheightExceeded) \<longleftrightarrow>
     lv + 50 < blockHeight net 0"
proof
  assume a: "sendRawTransaction net lv = Some (Inl MaximumBlockheightExceeded)"
  show "lv + 50 < blockHeight net 0"
  proof (rule ccontr)
    assume "\<not> lv + 50 < blockHeight net 0"
    then have le: "blockHeight net 0 \<le> lv + 50" by simp
    from a have "\<exists>j \<ge> 0. consistent_success (broadcast net j)"
      using sendRawTransaction_loop_returns [of "broadcast net" "blockHeight net 0" lv 0] le
      by (simp add: sendRawTransaction_def)
    then obtain n where "consistent_success (broadcast net n)" by blast
    then obtain n where n: "consistent_success (broadcast net n)"
      and least: "\<forall>j < n. \<not> consistent_success (broadcast net j)"
      using exists_least_iff [of "\<lambda>j. consistent_success (broadcast net j)"] by blast
    from sendRawTransaction_loop_success [of "blockHeight net 0" lv "broadcast net" 0 n] le n least
    show False using a by (simp add: sendRawTransaction_def)
  qed
next
  assume "lv + 50 < blockHeight net 0"
  then show "sendRawTransaction net lv = Some (Inl MaximumBlockheightExceeded)"
    by (simp add: sendRawTransaction_def sendRawTransaction_loop_exceeded)
qed

lemma sendRawTransaction_never_returns:
  assumes "blockHeight net 0 \<le> lv + 50" and "\<forall>j. \<not> consistent_success (broadcast net j)"
  shows "sendRawTransaction net lv = None"
  unfolding sendRawTransaction_def
  using assms by (intro sendRawTransaction_loop_diverges) simp_all

text \<open>
  Claim C3 on the code. The height is read once, before the loop, and the loop
  condition tests that one value in every pass. On a network whose height is 100 at the
  call and 200 from the next pass on, and on which every send is rejected, a call with
  last valid block height 100 never returns: it does not fail with "maximum blockheight
  exceeded", although the height has passed \<open>100 + 50\<close>.
\<close>

theorem C3_height_read_once:
  "blockHeight stalled_network 0 = 100
   \<and> blockHeight stalled_network 1 = 200
   \<and> broadcast stalled_network 1 = [rejected]
   \<and> sendRawTransaction stalled_network 100 = None"
proof -
  have "sendRawTransaction stalled_network 100 = None"
    by (rule sendRawTransaction_never_returns)
       (simp_all add: stalled_network_def consistent_success_def)
  then show ?thesis by (simp add: stalled_network_def)
qed

section \<open>Fee escalation: results\<close>

subsection \<open>An on-chain failure is handled like a timeout\<close>

lemma confirm_scan_forget_failure:
  "confirm_scan accept (map forget_failure replies) = confirm_scan accept replies"
proof (induction replies)
  case Nil
  show ?case by simp
next
  case (Cons reply rest)
  show ?case
  proof (cases "\<exists>e cs fetch. reply = Status (Some e) cs fetch")
    case True
    then obtain e cs fetch where "reply = Status (Some e) cs fetch" by blast
    then show ?thesis using Cons.IH by simp
  next
    case False
    then have "forget_failure reply = reply"
      by (cases reply rule: forget_failure.cases) auto
    then show ?thesis using Cons.IH by (simp split: sum.splits option.splits)
  qed
qed

lemma retry_loop_forget_failure:
  "retry_loop accept n nets (\<lambda>k. map forget_failure (replies k)) lv k trace =
   retry_loop accept n nets replies lv k trace"
proof (induction "n - k" arbitrary: k trace)
  case 0
  then show ?case by (subst (1 2) retry_loop.simps) simp
next
  case (Suc d)
  then have "k < n"
    and IH: "\<And>trace. retry_loop accept n nets (\<lambda>k. map forget_failure (replies k)) lv (Suc k) trace
               = retry_loop accept n nets replies lv (Suc k) trace"
    by auto
  show ?case
    by (subst (1 2) retry_loop.simps)
      (simp add: IH confirm_scan_forget_failure split: option.splits sum.splits)
qed

lemma escalate_from_forget_failure:
  "escalate_from accept cfg
     (chain\<lparr>statuses := \<lambda>r k. map forget_failure (statuses chain r k)\<rparr>) firstFee
   = escalate_from accept cfg chain firstFee"
  by (cases firstFee) (simp_all add: escalate_from_def retry_loop_forget_failure)

subsection \<open>Evaluation on the concrete chains\<close>

lemma sendRawTransaction_accepting:
  "sendRawTransaction accepting_network 100 = Some (Inr (Some ''5sig''))"
  by (simp add: sendRawTransaction_def accepting_network_def sendRawTransaction_loop_step
      consistent_success_def)

lemma sendRawTransaction_accepting_returns:
  "sendRawTransaction accepting_network lv \<noteq> None"
proof (cases "lv + 50 < 100")
  case True
  then show ?thesis
    by (simp add: sendRawTransaction_def accepting_network_def sendRawTransaction_loop_exceeded)
next
  case False
  then show ?thesis
    by (simp add: sendRawTransaction_def accepting_network_def sendRawTransaction_loop_step
        consistent_success_def)
qed

lemmas loop_eval = sendAndConfirmTransaction_def executeSwap_def escalate_from_def
  fixture_settings_def fixture_chain_def escalation_loop.simps retry_loop.simps
  sendRawTransaction_accepting accept_object_def accept_confirmed_def truthy_def
  BASE_FEE_def escalations_def

lemma log_2_4: "log 2 4 = 2"
proof -
  have "log 2 4 = log 2 (2 ^ 2)" by simp
  also have "\<dots> = 2" by (subst log_nat_power) simp_all
  finally show ?thesis .
qed

subsection \<open>Returning without confirmation\<close>

text \<open>
  Claim C1 on the code. A status that is neither failed nor confirmed makes
  \<open>confirmTransaction\<close> return an object with \<open>confirmed = false\<close>;
  \<open>sendAndConfirmTransaction\<close> tests the object, not its field, and returns the signature
  after the first such answer. \<open>executeSwap\<close>, which tests the field, does not return a
  result on the same chain.
\<close>

theorem C1_returns_unconfirmed:
  "confirmTransaction (Status None ''processed'' (Tx None))
     = Inr \<lparr>confirmed = False, txData = None\<rparr>
   \<and> sendAndConfirmTransaction fixture_settings
       (fixture_chain (Status None ''processed'' (Tx None))) (Inr (Num 1))
     = Some ([Send, Query], Inr (Some ''5sig''))
   \<and> executeSwap fixture_settings
       (fixture_chain (Status None ''processed'' (Tx None))) (Inr (Num 1))
     = Some ([Send, Query, Escalate 2, Send, Query, Escalate 4, Send, Query, Escalate 8],
             Inl MaximumPriorityFeeReached)"
  by (simp add: loop_eval)

subsection \<open>Rounds in which no status reply makes the function return\<close>

lemma confirm_scan_none_accepted:
  "\<forall>reply \<in> set replies. \<forall>c. confirmTransaction reply = Inr c \<longrightarrow> accept c = None \<Longrightarrow>
   confirm_scan accept replies = (replicate (length replies) Query, None)"
  by (induction replies) (auto split: sum.splits option.splits)

lemma is_failed_throws:
  "is_failed reply \<Longrightarrow> \<exists>e. confirmTransaction reply = Inl (TransactionFailedWithError e)"
  by (cases reply rule: is_failed.cases) auto

lemma confirm_scan_failed:
  assumes "list_all is_failed replies"
  shows "confirm_scan accept replies = (replicate (length replies) Query, None)"
proof (rule confirm_scan_none_accepted, intro ballI allI impI)
  fix reply c
  assume "reply \<in> set replies" and c: "confirmTransaction reply = Inr c"
  with assms have "is_failed reply" by (simp add: list_all_iff)
  from is_failed_throws [OF this] c show "accept c = None" by auto
qed

lemma retry_loop_unaccepted:
  assumes "\<forall>j<n. \<exists>sg. sendRawTransaction (nets j) lv = Some (Inr sg)"
    and "\<forall>j<n. confirm_scan accept (replies j) = (replicate (length (replies j)) Query, None)"
  shows "k \<le> n \<Longrightarrow>
         retry_loop accept n nets replies lv k trace =
           Some (trace @ concat (map (\<lambda>j. Send # replicate (length (replies j)) Query) [k..<n]),
                 None)"
proof (induction "n - k" arbitrary: k trace)
  case 0
  then have "k = n" by simp
  then show ?case by (subst retry_loop.simps) simp
next
  case (Suc d)
  then have lt: "k < n" and d: "d = n - Suc k" and le: "Suc k \<le> n" by auto
  obtain sg where sg: "sendRawTransaction (nets k) lv = Some (Inr sg)"
    using assms(1) lt by blast
  have scan: "confirm_scan accept (replies k) = (replicate (length (replies k)) Query, None)"
    using assms(2) lt by blast
  have upt: "[k..<n] = k # [Suc k..<n]" using lt by (rule upt_conv_Cons)
  show ?case
    using lt sg scan Suc.hyps(1) [OF d le]
    by (subst retry_loop.simps) (simp add: upt)
qed

lemma floor_of_nat_product: "real_of_int \<lfloor>real f * real m\<rfloor> = real (f * m)"
  by (metis floor_of_nat of_int_of_nat_eq of_nat_mult)

lemma escalation_loop_run:
  assumes rounds: "\<And>r. \<exists>lv. prep r = Some lv \<and> attempt r lv = Some (acts r, None)"
    and mult: "priorityFeeMultiplier cfg = real m"
    and below: "\<forall>i<n. real (f * m ^ i) \<le> maxPriorityFee cfg"
    and above: "maxPriorityFee cfg < real (f * m ^ n)"
  shows "escalation_loop cfg prep attempt (real f) r acc =
           Some (acc @ exhausted_run m acts f r n, Inl MaximumPriorityFeeReached)"
  using below above
proof (induction n arbitrary: f r acc)
  case 0
  then show ?case by (subst escalation_loop.simps) simp
next
  case (Suc n)
  from Suc.prems(1) have le: "real f \<le> maxPriorityFee cfg" by force
  obtain lv where lv: "prep r = Some lv" and dn: "attempt r lv = Some (acts r, None)"
    using rounds [of r] by blast
  have b: "\<forall>i<n. real (f * m * m ^ i) \<le> maxPriorityFee cfg"
  proof (intro allI impI)
    fix i assume "i < n"
    then have "Suc i < Suc n" by simp
    with Suc.prems(1) have "real (f * m ^ Suc i) \<le> maxPriorityFee cfg" by blast
    then show "real (f * m * m ^ i) \<le> maxPriorityFee cfg" by (simp add: mult.assoc)
  qed
  have a: "maxPriorityFee cfg < real (f * m * m ^ n)"
    using Suc.prems(2) by (simp add: mult.assoc)
  note IH = Suc.IH [OF b a, of "r + 1" "acc @ acts r @ [Escalate (real (f * m))]"]
  show ?case
    using le lv dn IH
    by (subst escalation_loop.simps) (simp add: mult floor_of_nat_product)
qed

lemma escalate_from_run:
  assumes "\<forall>r k. confirm_scan accept (statuses chain r k)
                   = (replicate (length (statuses chain r k)) Query, None)"
    and "\<forall>r. \<exists>lv. prepare chain r = Some lv \<and>
            (\<forall>k < retryCount cfg. \<exists>sg. sendRawTransaction (networks chain r k) lv = Some (Inr sg))"
    and "priorityFeeMultiplier cfg = real m"
    and "\<forall>i<n. real (f0 * m ^ i) \<le> maxPriorityFee cfg"
    and "maxPriorityFee cfg < real (f0 * m ^ n)"
  shows "escalate_from accept cfg chain (Num (real f0)) =
           Some (exhausted_run m (round_actions cfg chain) f0 0 n, Inl MaximumPriorityFeeReached)"
proof -
  have rounds: "\<exists>lv. prepare chain r = Some lv \<and>
      retry_loop accept (retryCount cfg) (networks chain r) (statuses chain r) lv 0 []
        = Some (round_actions cfg chain r, None)" for r
  proof -
    obtain lv where lv: "prepare chain r = Some lv"
      and sends: "\<forall>k < retryCount cfg. \<exists>sg. sendRawTransaction (networks chain r k) lv = Some (Inr sg)"
      using assms(2) by blast
    have "retry_loop accept (retryCount cfg) (networks chain r) (statuses chain r) lv 0 []
        = Some ([] @ concat (map (\<lambda>j. Send # replicate (length (statuses chain r j)) Query)
                               [0..<retryCount cfg]), None)"
      using sends assms(1) by (intro retry_loop_unaccepted) simp_all
    with lv show ?thesis by (simp add: round_actions_def)
  qed
  from escalation_loop_run
    [of "prepare chain"
        "\<lambda>r lv. retry_loop accept (retryCount cfg) (networks chain r) (statuses chain r) lv 0 []"
        "round_actions cfg chain" cfg m n f0 0 "[]", OF rounds assms(3,4,5)]
  show ?thesis by (simp add: escalate_from_def)
qed

text \<open>
  Claim C2, as stated, fails. On a pool of two connections with two retries per round, a
  first fee of 1 and a fee ceiling of 2, a status that carries an error on every query
  does not end the loop: after the first failed status the loop queries the second
  connection, submits again, escalates the fee to 2 and runs a second round, and what
  reaches the caller is the fee-ceiling error, not the on-chain failure.
\<close>

theorem C2_failure_retried_counterexample:
  "confirmTransaction (Status (Some ''InstructionError'') ''confirmed'' (Tx None))
     = Inl (TransactionFailedWithError ''InstructionError'')
   \<and> retryCount two_retry_settings = 2
   \<and> statuses (two_connection_chain
                  (Status (Some ''InstructionError'') ''confirmed'' (Tx None))
                  (Status (Some ''InstructionError'') ''confirmed'' (Tx None))) 0 0
     = [Status (Some ''InstructionError'') ''confirmed'' (Tx None),
        Status (Some ''InstructionError'') ''confirmed'' (Tx None)]
   \<and> sendAndConfirmTransaction two_retry_settings
       (two_connection_chain
          (Status (Some ''InstructionError'') ''confirmed'' (Tx None))
          (Status (Some ''InstructionError'') ''confirmed'' (Tx None)))
       (Inr (Num 1))
     = Some ([Send, Query, Query, Send, Query, Query, Escalate 2,
              Send, Query, Query, Send, Query, Query, Escalate 4],
             Inl MaximumPriorityFeeReached)
   \<and> executeSwap two_retry_settings
       (two_connection_chain
          (Status (Some ''InstructionError'') ''confirmed'' (Tx None))
          (Status (Some ''InstructionError'') ''confirmed'' (Tx None)))
       (Inr (Num 1))
     = Some ([Send, Query, Query, Send, Query, Query, Escalate 2,
              Send, Query, Query, Send, Query, Query, Escalate 4],
             Inl MaximumPriorityFeeReached)"
  by (simp add: loop_eval two_retry_settings_def two_connection_chain_def)

text \<open>
  Claim C2, amended. A status with a non-null error makes \<open>confirmTransaction\<close> throw; the
  loop over the connections catches the exception and goes on to query the remaining
  connections; and both \<open>sendAndConfirmTransaction\<close> and \<open>executeSwap\<close> do on any chain
  what they do on the chain whose failed statuses are all replaced by timeouts. In
  particular, when every status reply carries an error, every round can be prepared and
  every submission returns a signature, then with an integer first fee \<open>f0\<close> and an
  integer multiplier \<open>m\<close> (their products not above \<open>2\<^sup>5\<^sup>3\<close>) both functions run, in each
  round, \<open>retryCount\<close> submissions, each followed by one status query on every
  connection, then escalate the fee, and they end with the maximum-priority-fee error
  after the first escalation to a fee above the ceiling: the on-chain failure is retried
  and never reaches the caller.
\<close>

theorem C2_failure_handled_like_timeout:
  "confirmTransaction (Status (Some e) cs fetch) = Inl (TransactionFailedWithError e)
   \<and> confirm_scan accept (Status (Some e) cs fetch # rest)
       = (Query # fst (confirm_scan accept rest), snd (confirm_scan accept rest))
   \<and> sendAndConfirmTransaction cfg
        (chain\<lparr>statuses := \<lambda>r k. map forget_failure (statuses chain r k)\<rparr>) firstFee
      = sendAndConfirmTransaction cfg chain firstFee
   \<and> executeSwap cfg
        (chain\<lparr>statuses := \<lambda>r k. map forget_failure (statuses chain r k)\<rparr>) firstFee
      = executeSwap cfg chain firstFee
   \<and> ((\<forall>r k. list_all is_failed (statuses chain r k))
        \<and> (\<forall>r. \<exists>lv. prepare chain r = Some lv \<and>
              (\<forall>k < retryCount cfg.
                 \<exists>sg. sendRawTransaction (networks chain r k) lv = Some (Inr sg)))
        \<and> priorityFeeMultiplier cfg = real m
        \<and> (\<forall>i<n. real (f0 * m ^ i) \<le> maxPriorityFee cfg)
        \<and> maxPriorityFee cfg < real (f0 * m ^ n)
        \<and> real (f0 * m ^ n) \<le> 2 ^ 53
       \<longrightarrow> sendAndConfirmTransaction cfg chain (Inr (Num (real f0)))
             = Some (exhausted_run m (round_actions cfg chain) f0 0 n,
                     Inl MaximumPriorityFeeReached)
           \<and> executeSwap cfg chain (Inr (Num (real f0)))
             = Some (exhausted_run m (round_actions cfg chain) f0 0 n,
                     Inl MaximumPriorityFeeReached))"
proof (intro conjI impI)
  show "confirmTransaction (Status (Some e) cs fetch) = Inl (TransactionFailedWithError e)"
    by simp
  show "confirm_scan accept (Status (Some e) cs fetch # rest)
       = (Query # fst (confirm_scan accept rest), snd (confirm_scan accept rest))"
    by simp
  show "sendAndConfirmTransaction cfg
        (chain\<lparr>statuses := \<lambda>r k. map forget_failure (statuses chain r k)\<rparr>) firstFee
      = sendAndConfirmTransaction cfg chain firstFee"
    by (cases firstFee)
      (simp_all add: sendAndConfirmTransaction_def escalate_from_forget_failure)
  show "executeSwap cfg
        (chain\<lparr>statuses := \<lambda>r k. map forget_failure (statuses chain r k)\<rparr>) firstFee
      = executeSwap cfg chain firstFee"
    by (cases firstFee) (simp_all add: executeSwap_def escalate_from_forget_failure)
next
  assume h: "(\<forall>r k. list_all is_failed (statuses chain r k))
        \<and> (\<forall>r. \<exists>lv. prepare chain r = Some lv \<and>
              (\<forall>k < retryCount cfg.
                 \<exists>sg. sendRawTransaction (networks chain r k) lv = Some (Inr sg)))
        \<and> priorityFeeMultiplier cfg = real m
        \<and> (\<forall>i<n. real (f0 * m ^ i) \<le> maxPriorityFee cfg)
        \<and> maxPriorityFee cfg < real (f0 * m ^ n)
        \<and> real (f0 * m ^ n) \<le> 2 ^ 53"
  then have scan: "\<forall>r k. confirm_scan accept' (statuses chain r k)
                   = (replicate (length (statuses chain r k)) Query, None)" for accept' :: "Confirmation \<Rightarrow> 'r option"
    by (simp add: confirm_scan_failed)
  from h have prep: "\<forall>r. \<exists>lv. prepare chain r = Some lv \<and>
              (\<forall>k < retryCount cfg.
                 \<exists>sg. sendRawTransaction (networks chain r k) lv = Some (Inr sg))"
    and mult: "priorityFeeMultiplier cfg = real m"
    and below: "\<forall>i<n. real (f0 * m ^ i) \<le> maxPriorityFee cfg"
    and above: "maxPriorityFee cfg < real (f0 * m ^ n)"
    by blast+
  show "sendAndConfirmTransaction cfg chain (Inr (Num (real f0)))
             = Some (exhausted_run m (round_actions cfg chain) f0 0 n,
                     Inl MaximumPriorityFeeReached)"
    by (simp add: sendAndConfirmTransaction_def
        escalate_from_run [OF scan prep mult below above])
  show "executeSwap cfg chain (Inr (Num (real f0)))
             = Some (exhausted_run m (round_actions cfg chain) f0 0 n,
                     Inl MaximumPriorityFeeReached)"
    by (simp add: executeSwap_def escalate_from_run [OF scan prep mult below above])
qed

theorem C2_failure_handled_like_timeout_witness:
  "(\<forall>r k. list_all is_failed
            (statuses (two_connection_chain
                         (Status (Some ''InstructionError'') ''confirmed'' (Tx None))
                         (Status (Some ''AccountInUse'') ''processed'' TxThrew)) r k))
   \<and> (\<forall>r. \<exists>lv. prepare (two_connection_chain
                         (Status (Some ''InstructionError'') ''confirmed'' (Tx None))
                         (Status (Some ''AccountInUse'') ''processed'' TxThrew)) r = Some lv \<and>
          (\<forall>k < retryCount two_retry_settings.
             \<exists>sg. sendRawTransaction
                    (networks (two_connection_chain
                         (Status (Some ''InstructionError'') ''confirmed'' (Tx None))
                         (Status (Some ''AccountInUse'') ''processed'' TxThrew)) r k) lv
                  = Some (Inr sg)))
   \<and> priorityFeeMultiplier two_retry_settings = real 2
   \<and> real (1 * 2 ^ 0) \<le> maxPriorityFee two_retry_settings
   \<and> real (1 * 2 ^ 1) \<le> maxPriorityFee two_retry_settings
   \<and> maxPriorityFee two_retry_settings < real (1 * 2 ^ 2)
   \<and> real (1 * 2 ^ 2) \<le> (2 :: real) ^ 53
   \<and> sendAndConfirmTransaction two_retry_settings
       (two_connection_chain
          (Status (Some ''InstructionError'') ''confirmed'' (Tx None))
          (Status (Some ''AccountInUse'') ''processed'' TxThrew))
       (Inr (Num (real 1)))
     = Some ([Send, Query, Query, Send, Query, Query, Escalate 2,
              Send, Query, Query, Send, Query, Query, Escalate 4],
             Inl MaximumPriorityFeeReached)
   \<and> sendAndConfirmTransaction two_retry_settings
       (two_connection_chain TimedOut TimedOut) (Inr (Num (real 1)))
     = Some ([Send, Query, Query, Send, Query, Query, Escalate 2,
              Send, Query, Query, Send, Query, Query, Escalate 4],
             Inl MaximumPriorityFeeReached)"
proof -
  let ?chain = "two_connection_chain
                  (Status (Some ''InstructionError'') ''confirmed'' (Tx None))
                  (Status (Some ''AccountInUse'') ''processed'' TxThrew)"
  have h1: "\<forall>r k. list_all is_failed (statuses ?chain r k)"
    by (simp add: two_connection_chain_def)
  have h2: "\<forall>r. \<exists>lv. prepare ?chain r = Some lv \<and>
          (\<forall>k < retryCount two_retry_settings.
             \<exists>sg. sendRawTransaction (networks ?chain r k) lv = Some (Inr sg))"
    by (simp add: two_connection_chain_def sendRawTransaction_accepting)
  have h3: "priorityFeeMultiplier two_retry_settings = real 2"
    by (simp add: two_retry_settings_def)
  have h4: "\<forall>i<2. real (1 * 2 ^ i) \<le> maxPriorityFee two_retry_settings"
  proof (intro allI impI)
    fix i :: nat assume "i < 2"
    then have "i = 0 \<or> i = 1" by auto
    then show "real (1 * 2 ^ i) \<le> maxPriorityFee two_retry_settings"
      by (auto simp: two_retry_settings_def)
  qed
  have h5: "maxPriorityFee two_retry_settings < real (1 * 2 ^ 2)"
    by (simp add: two_retry_settings_def)
  have h6: "real (1 * 2 ^ 2) \<le> (2 :: real) ^ 53" by simp
  have forget: "(?chain\<lparr>statuses := \<lambda>r k. map forget_failure (statuses ?chain r k)\<rparr>)
                  = two_connection_chain TimedOut TimedOut"
    by (simp add: two_connection_chain_def)
  have run: "exhausted_run 2 (round_actions two_retry_settings ?chain) 1 0 2
               = [Send, Query, Query, Send, Query, Query, Escalate 2,
                  Send, Query, Query, Send, Query, Query, Escalate 4]"
    by (simp add: numeral_2_eq_2 round_actions_def two_retry_settings_def
        two_connection_chain_def)
  from C2_failure_handled_like_timeout
    [of "''InstructionError''" "''confirmed''" "Tx None" accept_object "[]" two_retry_settings
        ?chain "Inr (Num (real 1))" 2 2 1]
  show ?thesis
    using h1 h2 h3 h4 h5 h6 unfolding forget run by (simp add: two_retry_settings_def)
qed

subsection \<open>A result only after a confirmed status (executeSwap)\<close>

lemma confirm_scan_Some:
  "snd (confirm_scan accept replies) = Some kept \<Longrightarrow>
   \<exists>reply \<in> set replies. \<exists>c. confirmTransaction reply = Inr c \<and> accept c = Some kept"
  by (induction replies) (auto split: sum.splits option.splits)

lemma retry_loop_Some:
  "retry_loop accept n nets replies lv k trace = Some (dn, Some (sg, kept)) \<Longrightarrow>
   \<exists>j. snd (confirm_scan accept (replies j)) = Some kept"
proof (induction "n - k" arbitrary: k trace)
  case 0
  then show ?case by (subst (asm) retry_loop.simps) simp
next
  case (Suc d)
  then have lt: "k < n" and d: "d = n - Suc k" by auto
  from Suc.prems have body:
    "(case sendRawTransaction (nets k) lv of
           None \<Rightarrow> None
         | Some (Inl e) \<Rightarrow>
             retry_loop accept n nets replies lv (k + 1) (trace @ [Send])
         | Some (Inr sg) \<Rightarrow>
             (case snd (confirm_scan accept (replies k)) of
                Some kept \<Rightarrow>
                  Some (trace @ [Send] @ fst (confirm_scan accept (replies k)),
                        Some (sg, kept))
              | None \<Rightarrow>
                  retry_loop accept n nets replies lv (k + 1)
                    (trace @ [Send] @ fst (confirm_scan accept (replies k))))) = Some (dn, Some (sg, kept))"
    using lt by (subst (asm) retry_loop.simps) simp
  show ?case
  proof (cases "snd (confirm_scan accept (replies k))")
    case (Some kept')
    then show ?thesis
      using body Suc.hyps(1) [OF d] by (auto split: option.splits sum.splits)
  next
    case None
    then show ?thesis
      using body Suc.hyps(1) [OF d] by (auto split: option.splits sum.splits)
  qed
qed

lemma escalation_loop_Inr_aux:
  assumes "escalation_loop cfg prep attempt f r acc = Some y"
  shows "\<forall>trace res. y = (trace, Inr res) \<longrightarrow> (\<exists>r lv dn. attempt r lv = Some (dn, Some res))"
  apply (rule escalation_loop.raw_induct
      [where P = "\<lambda>cfg prep attempt f r acc y.
                    \<forall>trace res. y = (trace, Inr res) \<longrightarrow> (\<exists>r lv dn. attempt r lv = Some (dn, Some res))",
       OF _ assms])
  apply (auto split: if_splits option.splits prod.splits)
  done

lemma escalation_loop_Inr:
  "escalation_loop cfg prep attempt f r acc = Some (trace, Inr res) \<Longrightarrow>
   \<exists>r lv dn. attempt r lv = Some (dn, Some res)"
  using escalation_loop_Inr_aux by blast

lemma escalate_from_Inr:
  assumes "escalate_from accept cfg chain firstFee = Some (trace, Inr (sg, kept))"
  shows "\<exists>r k. \<exists>reply \<in> set (statuses chain r k). \<exists>c.
           confirmTransaction reply = Inr c \<and> accept c = Some kept"
proof -
  from assms obtain r lv dn where
    "retry_loop accept (retryCount cfg) (networks chain r) (statuses chain r) lv 0 []
       = Some (dn, Some (sg, kept))"
    by (cases firstFee) (auto simp: escalate_from_def dest: escalation_loop_Inr)
  from retry_loop_Some [OF this] obtain j
    where "snd (confirm_scan accept (statuses chain r j)) = Some kept" by blast
  from confirm_scan_Some [OF this] show ?thesis by blast
qed

lemma executeSwap_returns_confirmed:
  assumes "executeSwap cfg chain estimate = Some (trace, Inr result)"
  shows "\<exists>r k. \<exists>reply \<in> set (statuses chain r k). \<exists>c.
           confirmTransaction reply = Inr c \<and> confirmed c \<and> txData c \<noteq> None"
proof -
  from assms obtain firstFee tr sg d where
    "escalate_from accept_confirmed cfg chain firstFee = Some (tr, Inr (sg, d))"
    by (auto simp: executeSwap_def split: sum.splits option.splits prod.splits)
  from escalate_from_Inr [OF this] obtain r k reply c where
    "reply \<in> set (statuses chain r k)" "confirmTransaction reply = Inr c"
    "accept_confirmed c = Some d" by blast
  moreover from this have "confirmed c \<and> txData c \<noteq> None"
    by (auto simp: accept_confirmed_def split: if_splits)
  ultimately show ?thesis by blast
qed

subsection \<open>The number of fee escalations\<close>

lemma filter_Escalate_confirm_scan:
  "filter is_Escalate (fst (confirm_scan accept replies)) = []"
  by (induction replies) (simp_all split: sum.splits option.splits)

lemma retry_loop_exhausted:
  assumes "\<And>k. sendRawTransaction (nets k) lv \<noteq> None"
    and "\<And>k. snd (confirm_scan accept (replies k)) = None"
  shows "\<exists>dn. retry_loop accept n nets replies lv k trace = Some (dn, None)
               \<and> filter is_Escalate dn = filter is_Escalate trace"
proof (induction "n - k" arbitrary: k trace)
  case 0
  then show ?case by (subst retry_loop.simps) simp
next
  case (Suc d)
  then have lt: "k < n" and d: "d = n - Suc k" by auto
  obtain res where res: "sendRawTransaction (nets k) lv = Some res"
    using assms(1) [of k] by auto
  show ?case
  proof (cases res)
    case (Inl e)
    from Suc.hyps(1) [OF d, of "trace @ [Send]"]
    obtain dn' where "retry_loop accept n nets replies lv (Suc k) (trace @ [Send]) = Some (dn', None)"
      and "filter is_Escalate dn' = filter is_Escalate (trace @ [Send])" by blast
    then show ?thesis
      using lt res Inl by (subst retry_loop.simps) simp
  next
    case (Inr sg)
    from Suc.hyps(1) [OF d, of "trace @ [Send] @ fst (confirm_scan accept (replies k))"]
    obtain dn' where "retry_loop accept n nets replies lv (Suc k)
          (trace @ [Send] @ fst (confirm_scan accept (replies k))) = Some (dn', None)"
      and "filter is_Escalate dn'
             = filter is_Escalate (trace @ [Send] @ fst (confirm_scan accept (replies k)))"
      by blast
    then show ?thesis
      using lt res Inr assms(2) [of k] filter_Escalate_confirm_scan [of accept "replies k"]
      by (subst retry_loop.simps) simp
  qed
qed

lemma escalation_loop_exhausted:
  assumes prep: "\<And>r. prep r \<noteq> None"
    and rounds: "\<And>r lv. \<exists>dn. attempt r lv = Some (dn, None) \<and> filter is_Escalate dn = []"
    and mult: "priorityFeeMultiplier cfg = real m"
    and below: "\<forall>i<n. real (f * m ^ i) \<le> maxPriorityFee cfg"
    and above: "maxPriorityFee cfg < real (f * m ^ n)"
  shows "\<exists>trace. escalation_loop cfg prep attempt (real f) r acc
                   = Some (trace, Inl MaximumPriorityFeeReached)
              \<and> filter is_Escalate trace
                  = filter is_Escalate acc @ map (\<lambda>i. Escalate (real (f * m ^ Suc i))) [0..<n]"
  using below above
proof (induction n arbitrary: f r acc)
  case 0
  then show ?case by (subst escalation_loop.simps) simp
next
  case (Suc n)
  from Suc.prems(1) have le: "real f \<le> maxPriorityFee cfg" by force
  obtain lv where lv: "prep r = Some lv" using prep [of r] by auto
  obtain dn where dn: "attempt r lv = Some (dn, None)" and e0: "filter is_Escalate dn = []"
    using rounds [of r lv] by blast
  have b: "\<forall>i<n. real (f * m * m ^ i) \<le> maxPriorityFee cfg"
  proof (intro allI impI)
    fix i assume "i < n"
    then have "Suc i < Suc n" by simp
    with Suc.prems(1) have "real (f * m ^ Suc i) \<le> maxPriorityFee cfg" by blast
    then show "real (f * m * m ^ i) \<le> maxPriorityFee cfg" by (simp add: mult.assoc)
  qed
  have a: "maxPriorityFee cfg < real (f * m * m ^ n)"
    using Suc.prems(2) by (simp add: mult.assoc)
  from Suc.IH [OF b a, of "r + 1" "acc @ dn @ [Escalate (real (f * m))]"]
  obtain trace where t: "escalation_loop cfg prep attempt (real (f * m)) (r + 1)
         (acc @ dn @ [Escalate (real (f * m))]) = Some (trace, Inl MaximumPriorityFeeReached)"
    and n: "filter is_Escalate trace
              = filter is_Escalate (acc @ dn @ [Escalate (real (f * m))])
                @ map (\<lambda>i. Escalate (real (f * m * m ^ Suc i))) [0..<n]" by blast
  have "escalation_loop cfg prep attempt (real f) r acc
          = Some (trace, Inl MaximumPriorityFeeReached)"
    using le lv dn t by (subst escalation_loop.simps) (simp add: mult floor_of_nat_product)
  moreover have "filter is_Escalate trace
                  = filter is_Escalate acc
                    @ map (\<lambda>i. Escalate (real (f * m ^ Suc i))) [0..<Suc n]"
    unfolding n map_upt_Suc using e0 by (simp add: mult.assoc)
  ultimately show ?case by blast
qed

lemma escalation_steps_log:
  assumes "1 \<le> f" "2 \<le> m" "real f \<le> C"
  defines "L \<equiv> nat \<lfloor>log (real m) (C / real f)\<rfloor>"
  shows "(\<forall>i < L + 1. real (f * m ^ i) \<le> C) \<and> C < real (f * m ^ (L + 1))"
proof -
  have fpos: "0 < real f" and m1: "1 < real m" using assms by auto
  have x1: "1 \<le> C / real f" using assms fpos by (simp add: le_divide_eq)
  then have "0 \<le> log (real m) (C / real f)" using m1 by simp
  then have Lnn: "0 \<le> \<lfloor>log (real m) (C / real f)\<rfloor>" by simp
  then have "\<lfloor>log (real m) (C / real f)\<rfloor> = int L" by (simp add: L_def)
  then have pw: "real m powr real_of_int (int L) \<le> C / real f
             \<and> C / real f < real m powr real_of_int (int L + 1)"
    using floor_log_eq_powr_iff [of "C / real f" "real m" "int L"] x1 m1 by simp
  have lo: "real m ^ L \<le> C / real f"
    using pw m1 by (simp add: powr_realpow)
  have hi: "C / real f < real m ^ (L + 1)"
  proof -
    have "real m powr real_of_int (int L + 1) = real m powr real (L + 1)"
      by (simp add: add.commute)
    also have "\<dots> = real m ^ (L + 1)" using m1 by (subst powr_realpow) simp_all
    finally show ?thesis using pw by simp
  qed
  have "\<forall>i < L + 1. real (f * m ^ i) \<le> C"
  proof (intro allI impI)
    fix i assume "i < L + 1"
    then have "real m ^ i \<le> real m ^ L" using m1 by (intro power_increasing) simp_all
    with lo have "real m ^ i \<le> C / real f" by simp
    then show "real (f * m ^ i) \<le> C" using fpos by (simp add: le_divide_eq mult.commute)
  qed
  moreover have "C < real (f * m ^ (L + 1))"
    using hi fpos by (simp add: divide_less_eq mult.commute)
  ultimately show ?thesis by blast
qed

lemma escalate_from_exhausted:
  assumes "1 \<le> f0" and "2 \<le> m" and "real f0 \<le> maxPriorityFee cfg"
    and "priorityFeeMultiplier cfg = real m"
    and "\<forall>r. prepare chain r \<noteq> None"
    and "\<forall>r k lv. sendRawTransaction (networks chain r k) lv \<noteq> None"
    and "\<forall>r k. snd (confirm_scan accept (statuses chain r k)) = None"
  shows "\<exists>trace. escalate_from accept cfg chain (Num (real f0))
                   = Some (trace, Inl MaximumPriorityFeeReached)
              \<and> filter is_Escalate trace
                  = map (\<lambda>i. Escalate (real (f0 * m ^ Suc i)))
                      [0..<nat \<lfloor>log (real m) (maxPriorityFee cfg / real f0)\<rfloor> + 1]"
proof -
  let ?L = "nat \<lfloor>log (real m) (maxPriorityFee cfg / real f0)\<rfloor>"
  from escalation_steps_log [OF assms(1-3)]
  have below: "\<forall>i < ?L + 1. real (f0 * m ^ i) \<le> maxPriorityFee cfg"
    and above: "maxPriorityFee cfg < real (f0 * m ^ (?L + 1))"
    by blast+
  have rounds: "\<exists>dn. retry_loop accept (retryCount cfg) (networks chain r) (statuses chain r)
                        lv 0 [] = Some (dn, None) \<and> filter is_Escalate dn = []" for r lv
  proof -
    from retry_loop_exhausted [of "networks chain r" lv accept "statuses chain r"
        "retryCount cfg" 0 "[]"] assms(6,7)
    show ?thesis by simp
  qed
  have prep: "prepare chain r \<noteq> None" for r using assms(5) by simp
  from escalation_loop_exhausted
    [of "prepare chain"
        "\<lambda>r lv. retry_loop accept (retryCount cfg) (networks chain r) (statuses chain r) lv 0 []"
        cfg m "?L + 1" f0 0 "[]", OF prep rounds assms(4) below above]
  show ?thesis by (simp add: escalate_from_def)
qed

lemma confirm_scan_snd_none:
  "\<forall>reply \<in> set replies. \<forall>c. confirmTransaction reply = Inr c \<longrightarrow> accept c = None \<Longrightarrow>
   snd (confirm_scan accept replies) = None"
  by (simp add: confirm_scan_none_accepted)

subsection \<open>A fee that stops growing\<close>

lemma escalation_loop_returns_grows:
  assumes "escalation_loop cfg prep attempt f r acc = Some y"
  shows "\<not> (f \<le> maxPriorityFee cfg
            \<and> real_of_int \<lfloor>f * priorityFeeMultiplier cfg\<rfloor> = f
            \<and> (\<forall>r. prep r \<noteq> None)
            \<and> (\<forall>r lv. \<exists>dn. attempt r lv = Some (dn, None)))"
  apply (rule escalation_loop.raw_induct
      [where P = "\<lambda>cfg prep attempt f r acc y.
                    \<not> (f \<le> maxPriorityFee cfg
                       \<and> real_of_int \<lfloor>f * priorityFeeMultiplier cfg\<rfloor> = f
                       \<and> (\<forall>r. prep r \<noteq> None)
                       \<and> (\<forall>r lv. \<exists>dn. attempt r lv = Some (dn, None)))",
       OF _ assms])
  apply (auto split: if_splits option.splits prod.splits)
  apply (metis option.inject option.distinct(1) prod.inject)
  done

lemma escalate_from_stalls:
  assumes "f \<le> maxPriorityFee cfg"
    and "real_of_int \<lfloor>f * priorityFeeMultiplier cfg\<rfloor> = f"
    and "\<forall>r. prepare chain r \<noteq> None"
    and "\<forall>r k lv. sendRawTransaction (networks chain r k) lv \<noteq> None"
    and "\<forall>r k. snd (confirm_scan accept (statuses chain r k)) = None"
  shows "escalate_from accept cfg chain (Num f) = None"
proof (cases "escalate_from accept cfg chain (Num f)")
  case None
  then show ?thesis .
next
  case (Some y)
  have rounds: "\<forall>r lv. \<exists>dn. retry_loop accept (retryCount cfg) (networks chain r)
                   (statuses chain r) lv 0 [] = Some (dn, None)"
  proof (intro allI)
    fix r lv
    from retry_loop_exhausted [of "networks chain r" lv accept "statuses chain r"
        "retryCount cfg" 0 "[]"] assms(4,5)
    show "\<exists>dn. retry_loop accept (retryCount cfg) (networks chain r)
                   (statuses chain r) lv 0 [] = Some (dn, None)" by auto
  qed
  from Some have "escalation_loop cfg (prepare chain)
            (\<lambda>r lastValidBlockHeight.
               retry_loop accept (retryCount cfg) (networks chain r) (statuses chain r)
                 lastValidBlockHeight 0 [])
            f 0 [] = Some y"
    by (simp add: escalate_from_def)
  from escalation_loop_returns_grows [OF this] assms(1,2,3) rounds
  show ?thesis by blast
qed

lemma log_2_twelve_sevenths:
  "\<lceil>log 2 (12 / 7)\<rceil> = (1 :: int)" "\<lfloor>log 2 (12 / 7)\<rfloor> = (0 :: int)"
proof -
  have a: "0 < log 2 (12 / 7 :: real)" by (subst zero_less_log_cancel_iff) simp_all
  have b: "log 2 (12 / 7 :: real) < 1" by (subst log_less_one_cancel_iff) simp_all
  show "\<lceil>log 2 (12 / 7)\<rceil> = (1 :: int)" using a b by (simp add: ceiling_eq_iff)
  show "\<lfloor>log 2 (12 / 7)\<rfloor> = (0 :: int)" using a b by (simp add: floor_eq_iff)
qed

text \<open>
  Claim C8, as stated, fails in three ways, every status query timing out in each.
  From a first fee of 1 with ceiling 4 and multiplier 2 the loop escalates three times
  (to 2, 4 and 8) before it fails, and not \<open>\<lceil>log\<^sub>2 (4 / 1)\<rceil> = 2\<close> times: the round at
  fee 4 still runs, since the loop continues while the fee is at most the ceiling. With
  the multiplier \<open>3 / 2\<close> the escalated fee is \<open>Math.floor(1 * 1.5) = 1\<close>, the fee never
  grows, and the loop never terminates, with the fee-ceiling failure or otherwise. And
  from the first fee \<open>7 / 4\<close> with ceiling 3 and multiplier 2 the escalated fees are
  \<open>Math.floor(3.5) = 3\<close> and 6, two escalations, where \<open>\<lceil>log\<^sub>2 (3 / 1.75)\<rceil>\<close> and
  \<open>\<lfloor>log\<^sub>2 (3 / 1.75)\<rfloor> + 1\<close> are both 1: the fee is rounded down after each
  multiplication.
\<close>

theorem C8_escalation_count_counterexample:
  "maxPriorityFee fixture_settings = 4
   \<and> priorityFeeMultiplier fixture_settings = 2
   \<and> sendAndConfirmTransaction fixture_settings (fixture_chain TimedOut) (Inr (Num 1))
     = Some ([Send, Query, Escalate 2, Send, Query, Escalate 4, Send, Query, Escalate 8],
             Inl MaximumPriorityFeeReached)
   \<and> escalations [Send, Query, Escalate 2, Send, Query, Escalate 4, Send, Query, Escalate 8] = 3
   \<and> \<lceil>log 2 (4 / 1)\<rceil> = (2 :: int)
   \<and> real_of_int \<lfloor>(1 :: real) * (3 / 2)\<rfloor> = 1
   \<and> sendAndConfirmTransaction (fixture_settings\<lparr>priorityFeeMultiplier := 3 / 2\<rparr>)
       (fixture_chain TimedOut) (Inr (Num 1)) = None
   \<and> executeSwap (fixture_settings\<lparr>priorityFeeMultiplier := 3 / 2\<rparr>)
       (fixture_chain TimedOut) (Inr (Num 1)) = None
   \<and> sendAndConfirmTransaction (fixture_settings\<lparr>maxPriorityFee := 3\<rparr>)
       (fixture_chain TimedOut) (Inr (Num (7 / 4)))
     = Some ([Send, Query, Escalate 3, Send, Query, Escalate 6], Inl MaximumPriorityFeeReached)
   \<and> escalations [Send, Query, Escalate 3, Send, Query, Escalate 6] = 2
   \<and> \<lceil>log 2 (3 / (7 / 4))\<rceil> = (1 :: int)
   \<and> \<lfloor>log 2 (3 / (7 / 4))\<rfloor> + 1 = (1 :: int)"
proof -
  have stall: "escalate_from accept (fixture_settings\<lparr>priorityFeeMultiplier := 3 / 2\<rparr>)
                 (fixture_chain TimedOut) (Num 1) = None"
    for accept :: "Confirmation \<Rightarrow> 'r option"
    by (rule escalate_from_stalls)
      (simp_all add: fixture_settings_def fixture_chain_def sendRawTransaction_accepting_returns)
  have "sendAndConfirmTransaction (fixture_settings\<lparr>priorityFeeMultiplier := 3 / 2\<rparr>)
       (fixture_chain TimedOut) (Inr (Num 1)) = None"
    by (simp add: sendAndConfirmTransaction_def stall)
  moreover have "executeSwap (fixture_settings\<lparr>priorityFeeMultiplier := 3 / 2\<rparr>)
       (fixture_chain TimedOut) (Inr (Num 1)) = None"
    by (simp add: executeSwap_def stall)
  moreover have "sendAndConfirmTransaction fixture_settings (fixture_chain TimedOut) (Inr (Num 1))
     = Some ([Send, Query, Escalate 2, Send, Query, Escalate 4, Send, Query, Escalate 8],
             Inl MaximumPriorityFeeReached)"
    by (simp add: loop_eval)
  moreover have "sendAndConfirmTransaction (fixture_settings\<lparr>maxPriorityFee := 3\<rparr>)
       (fixture_chain TimedOut) (Inr (Num (7 / 4)))
     = Some ([Send, Query, Escalate 3, Send, Query, Escalate 6], Inl MaximumPriorityFeeReached)"
    by (simp add: loop_eval)
  ultimately show ?thesis
    by (simp add: fixture_settings_def escalations_def log_2_4 log_2_twelve_sevenths)
qed

text \<open>
  Claim C8, amended. Let the first fee \<open>f0 \<ge> 1\<close> and the multiplier \<open>m \<ge> 2\<close> be integers
  and the ceiling \<open>C \<ge> f0\<close>, with \<open>C * m \<le> 2\<^sup>5\<^sup>3\<close> (so that every product is exact in the
  number arithmetic of the code). Let every round be prepared without an exception and
  every submission return or throw. If every status query throws, then
  \<open>sendAndConfirmTransaction\<close> entered with first fee \<open>f0\<close>, and if no status query
  returns a confirmed result with transaction data, then \<open>executeSwap\<close> entered with
  first fee \<open>f0\<close>, multiplies the fee by \<open>m\<close> after each round, so that the escalated fees
  are \<open>f0 * m\<close>, \<open>f0 * m\<^sup>2\<close>, and so on, and fails with the fee-ceiling error after exactly
  \<open>\<lfloor>log\<^sub>m (C / f0)\<rfloor> + 1\<close> escalations: the loop continues while the fee is at most \<open>C\<close>
  and fails at the first escalated fee above it.
\<close>

theorem C8_escalation_steps:
  assumes "1 \<le> f0" and "2 \<le> m" and "real f0 \<le> maxPriorityFee cfg"
    and "maxPriorityFee cfg * real m \<le> 2 ^ 53"
    and "priorityFeeMultiplier cfg = real m"
    and "\<forall>r. prepare chain r \<noteq> None"
    and "\<forall>r k lv. sendRawTransaction (networks chain r k) lv \<noteq> None"
    and "L = nat \<lfloor>log (real m) (maxPriorityFee cfg / real f0)\<rfloor>"
  shows "((\<forall>r k. list_all (\<lambda>reply. isl (confirmTransaction reply)) (statuses chain r k))
          \<longrightarrow> (\<exists>trace. sendAndConfirmTransaction cfg chain (Inr (Num (real f0)))
                          = Some (trace, Inl MaximumPriorityFeeReached)
                        \<and> escalations trace = L + 1
                        \<and> filter is_Escalate trace
                            = map (\<lambda>i. Escalate (real (f0 * m ^ Suc i))) [0..<L + 1]))
       \<and> ((\<forall>r k. list_all (\<lambda>reply. case confirmTransaction reply of
                                      Inl e \<Rightarrow> True
                                    | Inr c \<Rightarrow> \<not> (confirmed c \<and> txData c \<noteq> None))
                       (statuses chain r k))
          \<longrightarrow> (\<exists>trace. executeSwap cfg chain (Inr (Num (real f0)))
                          = Some (trace, Inl MaximumPriorityFeeReached)
                        \<and> escalations trace = L + 1
                        \<and> filter is_Escalate trace
                            = map (\<lambda>i. Escalate (real (f0 * m ^ Suc i))) [0..<L + 1]))
       \<and> real (f0 * m ^ L) \<le> maxPriorityFee cfg
       \<and> maxPriorityFee cfg < real (f0 * m ^ (L + 1))"
proof (intro conjI impI)
  assume h: "\<forall>r k. list_all (\<lambda>reply. isl (confirmTransaction reply)) (statuses chain r k)"
  have "\<forall>r k. snd (confirm_scan accept_object (statuses chain r k)) = None"
  proof (intro allI)
    fix r k
    from h have "\<forall>reply \<in> set (statuses chain r k). isl (confirmTransaction reply)"
      by (simp add: list_all_iff)
    then show "snd (confirm_scan accept_object (statuses chain r k)) = None"
      by (intro confirm_scan_snd_none) fastforce
  qed
  from escalate_from_exhausted [OF assms(1-3) assms(5-7) this]
  obtain trace where t: "escalate_from accept_object cfg chain (Num (real f0))
                   = Some (trace, Inl MaximumPriorityFeeReached)"
    and e: "filter is_Escalate trace = map (\<lambda>i. Escalate (real (f0 * m ^ Suc i))) [0..<L + 1]"
    unfolding assms(8) by blast
  have "sendAndConfirmTransaction cfg chain (Inr (Num (real f0)))
          = Some (trace, Inl MaximumPriorityFeeReached)"
    using t by (simp add: sendAndConfirmTransaction_def)
  moreover have "escalations trace = L + 1"
    unfolding escalations_def e by simp
  ultimately show "\<exists>trace. sendAndConfirmTransaction cfg chain (Inr (Num (real f0)))
                          = Some (trace, Inl MaximumPriorityFeeReached)
                        \<and> escalations trace = L + 1
                        \<and> filter is_Escalate trace
                            = map (\<lambda>i. Escalate (real (f0 * m ^ Suc i))) [0..<L + 1]"
    using e by blast
next
  assume h: "\<forall>r k. list_all (\<lambda>reply. case confirmTransaction reply of
                                      Inl e \<Rightarrow> True
                                    | Inr c \<Rightarrow> \<not> (confirmed c \<and> txData c \<noteq> None))
                       (statuses chain r k)"
  have "\<forall>r k. snd (confirm_scan accept_confirmed (statuses chain r k)) = None"
  proof (intro allI)
    fix r k
    from h have "\<forall>reply \<in> set (statuses chain r k).
                   case confirmTransaction reply of
                     Inl e \<Rightarrow> True
                   | Inr c \<Rightarrow> \<not> (confirmed c \<and> txData c \<noteq> None)"
      by (simp add: list_all_iff)
    then show "snd (confirm_scan accept_confirmed (statuses chain r k)) = None"
      by (intro confirm_scan_snd_none) (fastforce simp: accept_confirmed_def)
  qed
  from escalate_from_exhausted [OF assms(1-3) assms(5-7) this]
  obtain trace where t: "escalate_from accept_confirmed cfg chain (Num (real f0))
                   = Some (trace, Inl MaximumPriorityFeeReached)"
    and e: "filter is_Escalate trace = map (\<lambda>i. Escalate (real (f0 * m ^ Suc i))) [0..<L + 1]"
    unfolding assms(8) by blast
  have "executeSwap cfg chain (Inr (Num (real f0)))
          = Some (trace, Inl MaximumPriorityFeeReached)"
    using t by (simp add: executeSwap_def)
  moreover have "escalations trace = L + 1"
    unfolding escalations_def e by simp
  ultimately show "\<exists>trace. executeSwap cfg chain (Inr (Num (real f0)))
                          = Some (trace, Inl MaximumPriorityFeeReached)
                        \<and> escalations trace = L + 1
                        \<and> filter is_Escalate trace
                            = map (\<lambda>i. Escalate (real (f0 * m ^ Suc i))) [0..<L + 1]"
    using e by blast
next
  from escalation_steps_log [OF assms(1-3)]
  show "real (f0 * m ^ L) \<le> maxPriorityFee cfg"
    and "maxPriorityFee cfg < real (f0 * m ^ (L + 1))"
    unfolding assms(8) by simp_all
qed

theorem C8_escalation_steps_witness:
  "real 1 \<le> maxPriorityFee fixture_settings
   \<and> maxPriorityFee fixture_settings * real 2 \<le> 2 ^ 53
   \<and> priorityFeeMultiplier fixture_settings = real 2
   \<and> (\<forall>r. prepare (fixture_chain TimedOut) r \<noteq> None)
   \<and> (\<forall>r k lv. sendRawTransaction (networks (fixture_chain TimedOut) r k) lv \<noteq> None)
   \<and> (\<forall>r k. list_all (\<lambda>reply. isl (confirmTransaction reply))
                (statuses (fixture_chain TimedOut) r k))
   \<and> nat \<lfloor>log (real 2) (maxPriorityFee fixture_settings / real 1)\<rfloor> = 2
   \<and> (\<exists>trace. sendAndConfirmTransaction fixture_settings (fixture_chain TimedOut)
                  (Inr (Num (real 1)))
                = Some (trace, Inl MaximumPriorityFeeReached)
              \<and> escalations trace = 3
              \<and> filter is_Escalate trace = [Escalate 2, Escalate 4, Escalate 8])
   \<and> (\<exists>trace. executeSwap fixture_settings (fixture_chain TimedOut) (Inr (Num (real 1)))
                = Some (trace, Inl MaximumPriorityFeeReached)
              \<and> escalations trace = 3
              \<and> filter is_Escalate trace = [Escalate 2, Escalate 4, Escalate 8])"
proof -
  have h3: "real 1 \<le> maxPriorityFee fixture_settings"
    by (simp add: fixture_settings_def)
  have h4: "maxPriorityFee fixture_settings * real 2 \<le> 2 ^ 53"
    by (simp add: fixture_settings_def)
  have h5: "priorityFeeMultiplier fixture_settings = real 2"
    by (simp add: fixture_settings_def)
  have h6: "\<forall>r. prepare (fixture_chain TimedOut) r \<noteq> None"
    by (simp add: fixture_chain_def)
  have h7: "\<forall>r k lv. sendRawTransaction (networks (fixture_chain TimedOut) r k) lv \<noteq> None"
    by (simp add: fixture_chain_def sendRawTransaction_accepting_returns)
  have h8: "2 = nat \<lfloor>log (real 2) (maxPriorityFee fixture_settings / real 1)\<rfloor>"
    by (simp add: fixture_settings_def log_2_4)
  have q1: "\<forall>r k. list_all (\<lambda>reply. isl (confirmTransaction reply))
                     (statuses (fixture_chain TimedOut) r k)"
    by (simp add: fixture_chain_def)
  have q2: "\<forall>r k. list_all (\<lambda>reply. case confirmTransaction reply of
                                      Inl e \<Rightarrow> True
                                    | Inr c \<Rightarrow> \<not> (confirmed c \<and> txData c \<noteq> None))
                       (statuses (fixture_chain TimedOut) r k)"
    by (simp add: fixture_chain_def)
  have fees: "map (\<lambda>i. Escalate (real (1 * 2 ^ Suc i))) [0..<2 + 1]
                = [Escalate 2, Escalate 4, Escalate 8]"
    by (simp add: upt_rec)
  from C8_escalation_steps [of 1 2 fixture_settings "fixture_chain TimedOut" 2,
      OF _ _ h3 h4 h5 h6 h7 h8]
  show ?thesis
    using h3 h4 h5 h6 h7 h8 [symmetric] q1 q2 unfolding fees by simp
qed

end
